theory Spec2Isabelle
  imports Main "HOL-Library.Sublist"
begin

section \<open>Values of the runtime\<close>

text \<open>
  The server is JavaScript on Express. Response bodies and the structured parts of
  error objects are JSON values; an absent property (\<^verbatim>\<open>undefined\<close>) is \<open>None\<close> of an
  option. An object is the list of its own properties in insertion order.
\<close>

datatype json =
    JNull
  | JBool bool
  | JNum int
  | JStr string
  | JArr "json list"
  | JObj "(string \<times> json) list"

text \<open>What \<^verbatim>\<open>if (v)\<close> and \<^verbatim>\<open>v || d\<close> test.\<close>

fun truthy :: "json \<Rightarrow> bool" where
  "truthy JNull = False"
| "truthy (JBool b) = b"
| "truthy (JNum n) = (n \<noteq> 0)"
| "truthy (JStr s) = (s \<noteq> [])"
| "truthy (JArr xs) = True"
| "truthy (JObj kvs) = True"

text \<open>
  An object literal as \<^verbatim>\<open>res.json\<close> serialises it: a property whose value is
  \<^verbatim>\<open>undefined\<close> is left out.
\<close>

definition object_literal :: "(string \<times> json option) list \<Rightarrow> json" where
  "object_literal kvs = JObj (List.map_filter (\<lambda>(k, v). map_option (Pair k) v) kvs)"

datatype err_code = CodeNum int | CodeStr string

text \<open>
  A thrown value: an \<^verbatim>\<open>Error\<close> instance (\<open>name\<close> and \<open>message\<close> are strings) with the
  own properties that the translator probes. \<open>err_keyValue\<close> is the key document of a
  storage uniqueness violation, its values as the template literal renders them.
\<close>

record js_err =
  err_name :: string
  err_message :: string
  err_stack :: "string option"
  err_code :: "err_code option"
  err_keyValue :: "(string \<times> string) list option"
  err_errors :: "json option"
  err_type :: "string option"
  err_status :: "int option"
  err_isOperational :: bool
  err_statusCode :: "int option"
  err_details :: "json option"

text \<open>
  \<^verbatim>\<open>new Error(message)\<close>. Of the stack only the header line is kept; the call frames
  that follow it depend on the engine.
\<close>

definition Error_new :: "string \<Rightarrow> js_err" where
  "Error_new msg =
     \<lparr> err_name = ''Error'', err_message = msg, err_stack = Some (''Error: '' @ msg),
       err_code = None, err_keyValue = None, err_errors = None, err_type = None,
       err_status = None, err_isOperational = False, err_statusCode = None,
       err_details = None \<rparr>"

definition TypeError_new :: "string \<Rightarrow> js_err" where
  "TypeError_new msg =
     (Error_new msg) \<lparr> err_name := ''TypeError'', err_stack := Some (''TypeError: '' @ msg) \<rparr>"

text \<open>A number in a template literal: the decimal digits of an integer.\<close>

fun show_nat :: "nat \<Rightarrow> string" where
  "show_nat n =
     (if n < 10 then [''0123456789'' ! n]
      else show_nat (n div 10) @ [''0123456789'' ! (n mod 10)])"

definition show_int :: "int \<Rightarrow> string" where
  "show_int i = (if i < 0 then ''-'' @ show_nat (nat (- i)) else show_nat (nat i))"

text \<open>
  The error of the platform for a response status that is no HTTP status: a RangeError
  with the code \<^verbatim>\<open>ERR_HTTP_INVALID_STATUS_CODE\<close>.
\<close>

definition invalid_status_code :: "int \<Rightarrow> js_err" where
  "invalid_status_code st =
     (Error_new (''Invalid status code: '' @ show_int st))
       \<lparr> err_name := ''RangeError'',
         err_code := Some (CodeStr ''ERR_HTTP_INVALID_STATUS_CODE''),
         err_stack := Some (''RangeError [ERR_HTTP_INVALID_STATUS_CODE]: Invalid status code: ''
                             @ show_int st) \<rparr>"

text \<open>
  \<^verbatim>\<open>class AppError extends Error\<close> (errorHandler.js 140-149): the constructor stores
  the status code and the details and marks the error operational. The class does not
  set \<open>name\<close>, which stays \<^verbatim>\<open>'Error'\<close>. A caller that passes no status code leaves it
  \<^verbatim>\<open>undefined\<close>; \<open>details\<close> defaults to \<^verbatim>\<open>null\<close>.
\<close>

definition AppError :: "string \<Rightarrow> int option \<Rightarrow> json \<Rightarrow> js_err" where
  "AppError msg statusCode details =
     (Error_new msg) \<lparr> err_statusCode := statusCode, err_details := Some details,
                       err_isOperational := True \<rparr>"

subsection \<open>Operations of the language that can throw\<close>

definition on_ok :: "'e + 'a \<Rightarrow> ('a \<Rightarrow> 'e + 'b) \<Rightarrow> 'e + 'b" where
  "on_ok r f = (case r of Inl e \<Rightarrow> Inl e | Inr x \<Rightarrow> f x)"

fun traverse :: "('a \<Rightarrow> 'e + 'b) \<Rightarrow> 'a list \<Rightarrow> 'e + 'b list" where
  "traverse f [] = Inr []"
| "traverse f (x # xs) =
     (case f x of
        Inl e \<Rightarrow> Inl e
      | Inr y \<Rightarrow> (case traverse f xs of Inl e \<Rightarrow> Inl e | Inr ys \<Rightarrow> Inr (y # ys)))"

text \<open>\<^verbatim>\<open>Object.values(v)\<close>: a TypeError on \<^verbatim>\<open>undefined\<close> and \<^verbatim>\<open>null\<close>.\<close>

definition Object_values :: "json option \<Rightarrow> js_err + json list" where
  "Object_values v =
     (case v of
        None \<Rightarrow> Inl (TypeError_new ''Cannot convert undefined or null to object'')
      | Some JNull \<Rightarrow> Inl (TypeError_new ''Cannot convert undefined or null to object'')
      | Some (JObj kvs) \<Rightarrow> Inr (map snd kvs)
      | Some (JArr xs) \<Rightarrow> Inr xs
      | Some (JStr s) \<Rightarrow> Inr (map (\<lambda>c. JStr [c]) s)
      | Some (JBool b) \<Rightarrow> Inr []
      | Some (JNum n) \<Rightarrow> Inr [])"

text \<open>
  \<^verbatim>\<open>v.k\<close> for a property name \<open>k\<close> that no prototype defines (\<open>message\<close>, \<open>param\<close>,
  \<open>msg\<close>, \<open>value\<close>): a TypeError on \<^verbatim>\<open>null\<close>, the own property of an object,
  \<^verbatim>\<open>undefined\<close> on every other value.
\<close>

definition get_prop :: "json \<Rightarrow> string \<Rightarrow> js_err + json option" where
  "get_prop v k =
     (case v of
        JNull \<Rightarrow> Inl (TypeError_new (''Cannot read properties of null (reading ''
                                      @ [CHR 0x27] @ k @ [CHR 0x27] @ '')''))
      | JObj kvs \<Rightarrow> Inr (map_of kvs k)
      | _ \<Rightarrow> Inr None)"

text \<open>An array element that is \<^verbatim>\<open>undefined\<close> serialises as \<^verbatim>\<open>null\<close>.\<close>

definition array_slot :: "json option \<Rightarrow> json" where
  "array_slot v = (case v of None \<Rightarrow> JNull | Some j \<Rightarrow> j)"

section \<open>Requests, responses, users\<close>

text \<open>
  Modelled from the spec: the User model (\<^verbatim>\<open>server/src/models/User.js\<close> is not among the
  sources). The spec's storage contract is \<^verbatim>\<open>findUserById(id) -> record|null\<close> with a
  record that carries id, role and the active flag and whose secret field can be
  excluded; the model's unit tests add username, email, the names and a hashed
  password. \<open>user_id\<close> is \<^verbatim>\<open>_id\<close> as a string; \<open>user_password = None\<close> is a record read
  with the password deselected.
\<close>

record user =
  user_id :: string
  user_username :: string
  user_email :: string
  user_password :: "string option"
  user_firstName :: "string option"
  user_lastName :: "string option"
  user_role :: string
  user_isActive :: bool
  user_lastLogin :: "string option"

record request =
  req_method :: string
  req_originalUrl :: string
  req_authorization :: "string option"
  req_params :: "(string \<times> string) list"
  req_user :: "user option"
  req_requestId :: "string option"

record response =
  res_status :: int
  res_body :: "(string \<times> json) list"

text \<open>
  \<^verbatim>\<open>res.status(st).json(body)\<close> with a status that is computed: the response is ended
  with that status and that body, and writing its head throws a RangeError when the
  status is outside 100..999.
\<close>

definition send_json :: "int \<Rightarrow> (string \<times> json) list \<Rightarrow> js_err + response" where
  "send_json st body =
     (if st < 100 \<or> 999 < st then Inl (invalid_status_code st)
      else Inr \<lparr> res_status = st, res_body = body \<rparr>)"

text \<open>
  How a middleware leaves: it sent a response, it called \<^verbatim>\<open>next()\<close> (with the request
  context as it left it), or it called \<^verbatim>\<open>next(err)\<close>.
\<close>

datatype outcome = Responded response | Next request | NextError js_err

text \<open>The part of \<^verbatim>\<open>process.env\<close> that the subsystem reads.\<close>

record process_env =
  NODE_ENV :: "string option"
  env_JWT_SECRET :: "string option"
  env_JWT_EXPIRE :: "string option"

section \<open>The error translator (middleware/errorHandler.js)\<close>

record classification =
  statusCode :: int
  message :: string
  details :: json

text \<open>
  Lines 30-32: the first key of \<^verbatim>\<open>err.keyValue\<close>, its value, and the template literal
  (\<open>CHR 0x27\<close> is the single quote). \<^verbatim>\<open>Object.keys\<close> throws on \<^verbatim>\<open>undefined\<close>; on an
  object without keys both the field and the value are \<^verbatim>\<open>undefined\<close>.
\<close>

definition duplicate_details :: "(string \<times> string) list option \<Rightarrow> js_err + json" where
  "duplicate_details keyValue =
     (case keyValue of
        None \<Rightarrow> Inl (TypeError_new ''Cannot convert undefined or null to object'')
      | Some [] \<Rightarrow>
          Inr (JStr (''undefined '' @ [CHR 0x27] @ ''undefined'' @ [CHR 0x27] @ '' already exists''))
      | Some ((field, v) # rest) \<Rightarrow>
          Inr (JStr (field @ '' '' @ [CHR 0x27] @ v @ [CHR 0x27] @ '' already exists'')))"

definition schema_messages :: "json option \<Rightarrow> js_err + json" where
  "schema_messages errors =
     on_ok (Object_values errors) (\<lambda>vals.
     on_ok (traverse (\<lambda>val. on_ok (get_prop val ''message'') (\<lambda>m. Inr (array_slot m))) vals)
       (\<lambda>msgs. Inr (JArr msgs)))"

definition validator_details :: "json option \<Rightarrow> js_err + json" where
  "validator_details errors =
     (case errors of
        Some (JArr xs) \<Rightarrow>
          on_ok (traverse (\<lambda>error.
                   on_ok (get_prop error ''param'') (\<lambda>p.
                   on_ok (get_prop error ''msg'') (\<lambda>m.
                   on_ok (get_prop error ''value'') (\<lambda>v.
                     Inr (object_literal [(''field'', p), (''message'', m), (''value'', v)])))))
                 xs)
            (\<lambda>ds. Inr (JArr ds))
      | _ \<Rightarrow> Inl (TypeError_new ''err.errors.map is not a function''))"

definition errors_truthy :: "json option \<Rightarrow> bool" where
  "errors_truthy errors = (case errors of None \<Rightarrow> False | Some j \<Rightarrow> truthy j)"

text \<open>
  Lines 14-100 of \<^verbatim>\<open>errorHandler\<close>: three variables with their defaults, then eleven
  \<^verbatim>\<open>if\<close> statements in a row, none with an \<^verbatim>\<open>else\<close>. Each statement is a function of
  the variables so far; a throw inside a block leaves the function.
\<close>

definition errorHandler_classify :: "js_err \<Rightarrow> js_err + classification" where
  "errorHandler_classify err =
     (let r = Inr \<lparr> statusCode = 500, message = ''Internal Server Error'', details = JNull \<rparr>;
          r = on_ok r (\<lambda>c.
                if err_name err = ''CastError''
                then Inr (c \<lparr> statusCode := 400, message := ''Invalid resource ID format'',
                             details := JStr ''The provided ID is not a valid MongoDB ObjectId'' \<rparr>)
                else Inr c);
          r = on_ok r (\<lambda>c.
                if err_code err = Some (CodeNum 11000)
                then on_ok (duplicate_details (err_keyValue err)) (\<lambda>d.
                       Inr (c \<lparr> statusCode := 400, message := ''Duplicate field value'',
                                details := d \<rparr>))
                else Inr c);
          r = on_ok r (\<lambda>c.
                if err_name err = ''ValidationError''
                then on_ok (schema_messages (err_errors err)) (\<lambda>d.
                       Inr (c \<lparr> statusCode := 400, message := ''Validation Error'',
                                details := d \<rparr>))
                else Inr c);
          r = on_ok r (\<lambda>c.
                if err_name err = ''JsonWebTokenError''
                then Inr (c \<lparr> statusCode := 401, message := ''Invalid token'',
                             details := JStr ''Please provide a valid authentication token'' \<rparr>)
                else Inr c);
          r = on_ok r (\<lambda>c.
                if err_name err = ''TokenExpiredError''
                then Inr (c \<lparr> statusCode := 401, message := ''Token expired'',
                             details := JStr ''Please log in again'' \<rparr>)
                else Inr c);
          r = on_ok r (\<lambda>c.
                if err_type err = Some ''ValidationError'' \<and> errors_truthy (err_errors err)
                then on_ok (validator_details (err_errors err)) (\<lambda>d.
                       Inr (c \<lparr> statusCode := 400, message := ''Validation Error'',
                                details := d \<rparr>))
                else Inr c);
          r = on_ok r (\<lambda>c.
                if err_code err = Some (CodeStr ''LIMIT_FILE_SIZE'')
                then Inr (c \<lparr> statusCode := 400, message := ''File too large'',
                             details := JStr ''Please upload a smaller file'' \<rparr>)
                else Inr c);
          r = on_ok r (\<lambda>c.
                if err_code err = Some (CodeStr ''LIMIT_UNEXPECTED_FILE'')
                then Inr (c \<lparr> statusCode := 400, message := ''Unexpected file field'',
                             details := JStr ''Please check the file upload field name'' \<rparr>)
                else Inr c);
          r = on_ok r (\<lambda>c.
                if err_name err = ''MongoNetworkError'' \<or> err_name err = ''MongoTimeoutError''
                then Inr (c \<lparr> statusCode := 503, message := ''Database connection error'',
                             details := JStr ''Service temporarily unavailable'' \<rparr>)
                else Inr c);
          r = on_ok r (\<lambda>c.
                if err_status err = Some 429
                then Inr (c \<lparr> statusCode := 429, message := ''Too many requests'',
                             details := JStr ''Please try again later'' \<rparr>)
                else Inr c);
          r = on_ok r (\<lambda>c.
                if err_isOperational err
                then Inr (c \<lparr> statusCode := (case err_statusCode err of
                                                None \<Rightarrow> 400
                                              | Some n \<Rightarrow> if n = 0 then 400 else n),
                             message := err_message err,
                             details := (case err_details err of
                                           None \<Rightarrow> JNull
                                         | Some d \<Rightarrow> if truthy d then d else JNull) \<rparr>)
                else Inr c)
      in r)"

text \<open>
  Lines 102-126: the response, ended by \<^verbatim>\<open>res.status(statusCode).json(errorResponse)\<close>
  (\<open>send_json\<close>). \<open>now\<close> is \<^verbatim>\<open>new Date().toISOString()\<close>. The calls of the logger write
  to the log only and are left out.
\<close>

definition errorHandler :: "process_env \<Rightarrow> string \<Rightarrow> js_err \<Rightarrow> request \<Rightarrow> js_err + response" where
  "errorHandler env now err req =
     on_ok (errorHandler_classify err) (\<lambda>c.
       let errorResponse =
             [(''error'', JStr (message c)),
              (''status'', JNum (statusCode c)),
              (''timestamp'', JStr now),
              (''path'', JStr (req_originalUrl req)),
              (''method'', JStr (req_method req))];
           errorResponse =
             (if truthy (details c) then errorResponse @ [(''details'', details c)]
              else errorResponse);
           errorResponse =
             (case req_requestId req of
                None \<Rightarrow> errorResponse
              | Some rid \<Rightarrow>
                  if rid \<noteq> [] then errorResponse @ [(''requestId'', JStr rid)]
                  else errorResponse);
           errorResponse =
             (if NODE_ENV env = Some ''development''
              then (case err_stack err of
                      None \<Rightarrow> errorResponse
                    | Some s \<Rightarrow> errorResponse @ [(''stack'', JStr s)])
              else errorResponse)
       in send_json (statusCode c) errorResponse)"

text \<open>\<^verbatim>\<open>asyncHandler\<close> (lines 133-135): a rejection of the handler goes to \<^verbatim>\<open>next\<close>.\<close>

definition asyncHandler :: "(request \<Rightarrow> js_err + response) \<Rightarrow> request \<Rightarrow> outcome" where
  "asyncHandler fn req = (case fn req of Inl e \<Rightarrow> NextError e | Inr res \<Rightarrow> Responded res)"

text \<open>\<^verbatim>\<open>notFound\<close> (lines 154-161).\<close>

definition notFound :: "request \<Rightarrow> outcome" where
  "notFound req =
     NextError (AppError (''Route '' @ req_originalUrl req @ '' not found'') (Some 404)
                  (JStr (''Cannot '' @ req_method req @ '' '' @ req_originalUrl req)))"

subsection \<open>The classification as a table of rules\<close>

text \<open>
  The spec presents the classification as one ordered table of rules, each a signal
  with the status, the message and the details it gives. The table below has the rows
  in the order of the \<^verbatim>\<open>if\<close> statements; \<open>first_match\<close> and \<open>last_match\<close> are two
  ways to read such a table.
\<close>

type_synonym rule = "(js_err \<Rightarrow> bool) \<times> (js_err \<Rightarrow> js_err + classification)"

definition default_classification :: classification where
  "default_classification =
     \<lparr> statusCode = 500, message = ''Internal Server Error'', details = JNull \<rparr>"

definition static_row :: "int \<Rightarrow> string \<Rightarrow> string \<Rightarrow> js_err \<Rightarrow> js_err + classification" where
  "static_row st msg expl err = Inr \<lparr> statusCode = st, message = msg, details = JStr expl \<rparr>"

definition computed_row ::
  "int \<Rightarrow> string \<Rightarrow> (js_err \<Rightarrow> js_err + json) \<Rightarrow> js_err \<Rightarrow> js_err + classification" where
  "computed_row st msg f err =
     on_ok (f err) (\<lambda>d. Inr \<lparr> statusCode = st, message = msg, details = d \<rparr>)"

definition operational_row :: "js_err \<Rightarrow> js_err + classification" where
  "operational_row err =
     Inr \<lparr> statusCode = (case err_statusCode err of
                            None \<Rightarrow> 400
                          | Some n \<Rightarrow> if n = 0 then 400 else n),
           message = err_message err,
           details = (case err_details err of
                        None \<Rightarrow> JNull
                      | Some d \<Rightarrow> if truthy d then d else JNull) \<rparr>"

definition classification_rules :: "rule list" where
  "classification_rules =
     [ (\<lambda>err. err_name err = ''CastError'',
        static_row 400 ''Invalid resource ID format''
          ''The provided ID is not a valid MongoDB ObjectId''),
       (\<lambda>err. err_code err = Some (CodeNum 11000),
        computed_row 400 ''Duplicate field value'' (\<lambda>err. duplicate_details (err_keyValue err))),
       (\<lambda>err. err_name err = ''ValidationError'',
        computed_row 400 ''Validation Error'' (\<lambda>err. schema_messages (err_errors err))),
       (\<lambda>err. err_name err = ''JsonWebTokenError'',
        static_row 401 ''Invalid token'' ''Please provide a valid authentication token''),
       (\<lambda>err. err_name err = ''TokenExpiredError'',
        static_row 401 ''Token expired'' ''Please log in again''),
       (\<lambda>err. err_type err = Some ''ValidationError'' \<and> errors_truthy (err_errors err),
        computed_row 400 ''Validation Error'' (\<lambda>err. validator_details (err_errors err))),
       (\<lambda>err. err_code err = Some (CodeStr ''LIMIT_FILE_SIZE''),
        static_row 400 ''File too large'' ''Please upload a smaller file''),
       (\<lambda>err. err_code err = Some (CodeStr ''LIMIT_UNEXPECTED_FILE''),
        static_row 400 ''Unexpected file field'' ''Please check the file upload field name''),
       (\<lambda>err. err_name err = ''MongoNetworkError'' \<or> err_name err = ''MongoTimeoutError'',
        static_row 503 ''Database connection error'' ''Service temporarily unavailable''),
       (\<lambda>err. err_status err = Some 429,
        static_row 429 ''Too many requests'' ''Please try again later''),
       (\<lambda>err. err_isOperational err, operational_row) ]"

definition matching :: "rule list \<Rightarrow> js_err \<Rightarrow> rule list" where
  "matching rules err = filter (\<lambda>r. fst r err) rules"

definition first_match :: "rule list \<Rightarrow> js_err \<Rightarrow> (js_err + classification) option" where
  "first_match rules err =
     (case matching rules err of [] \<Rightarrow> None | r # rs \<Rightarrow> Some (snd r err))"

definition last_match :: "rule list \<Rightarrow> js_err \<Rightarrow> (js_err + classification) option" where
  "last_match rules err =
     (case rev (matching rules err) of [] \<Rightarrow> None | r # rs \<Rightarrow> Some (snd r err))"

text \<open>
  The reading "the first rule that matches determines the status and the message; later
  rules refine only the details", as a test of one error.
\<close>

definition first_match_fixes_status_and_message :: "js_err \<Rightarrow> bool" where
  "first_match_fixes_status_and_message err =
     (case (first_match classification_rules err, errorHandler_classify err) of
        (Some (Inr c1), Inr c) \<Rightarrow> statusCode c = statusCode c1 \<and> message c = message c1
      | _ \<Rightarrow> True)"

text \<open>Running a table the way the \<^verbatim>\<open>if\<close> statements run: in order, each overwriting.\<close>

definition run_rules :: "rule list \<Rightarrow> js_err \<Rightarrow> js_err + classification" where
  "run_rules rules err =
     foldl (\<lambda>r rule. on_ok r (\<lambda>c. if fst rule err then snd rule err else Inr c))
       (Inr default_classification) rules"

definition envelope_fields :: "string list" where
  "envelope_fields = [''error'', ''status'', ''timestamp'', ''path'', ''method'']"

definition has_fields :: "string list \<Rightarrow> response \<Rightarrow> bool" where
  "has_fields ks res = list_all (\<lambda>k. map_of (res_body res) k \<noteq> None) ks"

section \<open>The token service (utils/auth.js)\<close>

text \<open>
  The claim set of a token; the payload handed to the signing library has the four
  fields of the identity, the library adds issuer, audience, issue time and expiry.
\<close>

record jwt_claims =
  claim_id :: "string option"
  claim_username :: "string option"
  claim_email :: "string option"
  claim_role :: "string option"
  claim_iss :: "string option"
  claim_aud :: "string option"
  claim_iat :: "int option"
  claim_exp :: "int option"

record sign_options =
  expiresIn :: string
  sign_issuer :: string
  sign_audience :: string

record verify_options =
  verify_issuer :: string
  verify_audience :: string

text \<open>
  The signing library (\<^verbatim>\<open>const jwt = require('jsonwebtoken')\<close>) is a parameter: its two
  functions, over some representation \<open>'t\<close> of tokens. Both can throw.
\<close>

record 't jwt_lib =
  jwt_sign :: "jwt_claims \<Rightarrow> string \<Rightarrow> sign_options \<Rightarrow> js_err + 't"
  jwt_verify :: "'t \<Rightarrow> string \<Rightarrow> verify_options \<Rightarrow> js_err + jwt_claims"

definition JWT_SECRET :: "process_env \<Rightarrow> string" where
  "JWT_SECRET env =
     (case env_JWT_SECRET env of
        None \<Rightarrow> ''fallback-secret-key-for-testing''
      | Some s \<Rightarrow> if s = [] then ''fallback-secret-key-for-testing'' else s)"

definition JWT_EXPIRE :: "process_env \<Rightarrow> string" where
  "JWT_EXPIRE env =
     (case env_JWT_EXPIRE env of
        None \<Rightarrow> ''7d''
      | Some s \<Rightarrow> if s = [] then ''7d'' else s)"

text \<open>
  The argument of \<^verbatim>\<open>generateToken\<close>: \<open>ident_doc_id\<close> is \<^verbatim>\<open>user._id\<close>, \<open>ident_alias_id\<close> is
  \<^verbatim>\<open>user.id\<close>; either may be absent. An id is falsy when it is the empty string.
\<close>

record identity =
  ident_doc_id :: "string option"
  ident_alias_id :: "string option"
  ident_username :: string
  ident_email :: string
  ident_role :: string

definition subject_id :: "identity \<Rightarrow> string option" where
  "subject_id u =
     (case ident_doc_id u of
        None \<Rightarrow> ident_alias_id u
      | Some i \<Rightarrow> if i = [] then ident_alias_id u else Some i)"

definition generateToken :: "'t jwt_lib \<Rightarrow> process_env \<Rightarrow> identity \<Rightarrow> js_err + 't" where
  "generateToken jwt env u =
     (let payload =
            \<lparr> claim_id = subject_id u,
              claim_username = Some (ident_username u),
              claim_email = Some (ident_email u),
              claim_role = Some (ident_role u),
              claim_iss = None, claim_aud = None, claim_iat = None, claim_exp = None \<rparr>
      in jwt_sign jwt payload (JWT_SECRET env)
           \<lparr> expiresIn = JWT_EXPIRE env,
             sign_issuer = ''mern-testing-app'',
             sign_audience = ''mern-testing-users'' \<rparr>)"

definition verifyToken :: "'t jwt_lib \<Rightarrow> process_env \<Rightarrow> 't \<Rightarrow> js_err + jwt_claims" where
  "verifyToken jwt env token =
     (case jwt_verify jwt token (JWT_SECRET env)
             \<lparr> verify_issuer = ''mern-testing-app'',
               verify_audience = ''mern-testing-users'' \<rparr> of
        Inr decoded \<Rightarrow> Inr decoded
      | Inl error \<Rightarrow> Inl (Error_new ''Invalid token''))"

definition extractToken :: "request \<Rightarrow> string option" where
  "extractToken req =
     (case req_authorization req of
        None \<Rightarrow> None
      | Some authHeader \<Rightarrow>
          if authHeader \<noteq> [] \<and> prefix ''Bearer '' authHeader
          then Some (drop 7 authHeader)
          else None)"

text \<open>
  Modelled from the spec: the queries of the User model that the subsystem uses, over
  the collection as a list. \<^verbatim>\<open>findById\<close> gives the record with that id or \<^verbatim>\<open>null\<close>
  (also for an absent id); \<^verbatim>\<open>.select('-password')\<close> excludes the secret field.
\<close>

definition User_findById :: "user list \<Rightarrow> string option \<Rightarrow> user option" where
  "User_findById users ido =
     (case ido of None \<Rightarrow> None | Some i \<Rightarrow> find (\<lambda>u. user_id u = i) users)"

definition select_minus_password :: "user \<Rightarrow> user" where
  "select_minus_password u = u \<lparr> user_password := None \<rparr>"

text \<open>
  \<^verbatim>\<open>getUserFromToken\<close>: the \<^verbatim>\<open>catch\<close> block logs and throws the same error again.
\<close>

definition getUserFromToken ::
  "'t jwt_lib \<Rightarrow> process_env \<Rightarrow> user list \<Rightarrow> 't \<Rightarrow> js_err + user" where
  "getUserFromToken jwt env users token =
     (case (case verifyToken jwt env token of
              Inl e \<Rightarrow> Inl e
            | Inr decoded \<Rightarrow>
                (case map_option select_minus_password (User_findById users (claim_id decoded)) of
                   None \<Rightarrow> Inl (Error_new ''User not found'')
                 | Some u \<Rightarrow>
                     if \<not> user_isActive u then Inl (Error_new ''User account is deactivated'')
                     else Inr u)) of
        Inl error \<Rightarrow> Inl error
      | Inr u \<Rightarrow> Inr u)"

subsection \<open>A symbolic signing library\<close>

text \<open>
  The contract of \<^verbatim>\<open>jsonwebtoken\<close> with the signature taken symbolically: a token is
  the claim set together with the key that signed it. \<open>timespan\<close> reads a span such as
  \<^verbatim>\<open>'7d'\<close> as seconds, \<open>now\<close> is the clock in seconds. \<^verbatim>\<open>sign\<close> stamps issue time, expiry,
  issuer and audience; \<^verbatim>\<open>verify\<close> checks the key, then the expiry, the audience and the
  issuer, in the library's order.
\<close>

datatype signed_token = Signed jwt_claims string

definition JsonWebTokenError :: "string \<Rightarrow> js_err" where
  "JsonWebTokenError msg = (Error_new msg) \<lparr> err_name := ''JsonWebTokenError'' \<rparr>"

definition TokenExpiredError :: "string \<Rightarrow> js_err" where
  "TokenExpiredError msg = (Error_new msg) \<lparr> err_name := ''TokenExpiredError'' \<rparr>"

definition jsonwebtoken :: "(string \<Rightarrow> int option) \<Rightarrow> int \<Rightarrow> signed_token jwt_lib" where
  "jsonwebtoken timespan now =
     \<lparr> jwt_sign = (\<lambda>payload secret opts.
         case timespan (expiresIn opts) of
           None \<Rightarrow> Inl (Error_new ([CHR 0x22] @ ''expiresIn'' @ [CHR 0x22]
                              @ '' should be a number of seconds or string representing a timespan''))
         | Some span \<Rightarrow>
             Inr (Signed (payload \<lparr> claim_iat := Some now,
                                    claim_exp := Some (now + span),
                                    claim_aud := Some (sign_audience opts),
                                    claim_iss := Some (sign_issuer opts) \<rparr>) secret)),
       jwt_verify = (\<lambda>token secret opts.
         case token of Signed claims key \<Rightarrow>
           if key \<noteq> secret then Inl (JsonWebTokenError ''invalid signature'')
           else if (case claim_exp claims of None \<Rightarrow> False | Some e \<Rightarrow> e \<le> now)
             then Inl (TokenExpiredError ''jwt expired'')
           else if claim_aud claims \<noteq> Some (verify_audience opts)
             then Inl (JsonWebTokenError (''jwt audience invalid. expected: ''
                                           @ verify_audience opts))
           else if claim_iss claims \<noteq> Some (verify_issuer opts)
             then Inl (JsonWebTokenError (''jwt issuer invalid. expected: ''
                                           @ verify_issuer opts))
           else Inr claims) \<rparr>"

section \<open>The authorization gates (middleware/auth.js)\<close>

definition gate_halt :: "int \<Rightarrow> string \<Rightarrow> string \<Rightarrow> outcome" where
  "gate_halt st err msg =
     Responded \<lparr> res_status = st, res_body = [(''error'', JStr err), (''message'', JStr msg)] \<rparr>"

text \<open>\<^verbatim>\<open>auth\<close>: \<^verbatim>\<open>!token\<close> holds for \<^verbatim>\<open>null\<close> and for the empty string.\<close>

definition auth :: "string jwt_lib \<Rightarrow> process_env \<Rightarrow> user list \<Rightarrow> request \<Rightarrow> outcome" where
  "auth jwt env users req =
     (case extractToken req of
        None \<Rightarrow> gate_halt 401 ''Access denied'' ''No token provided''
      | Some token \<Rightarrow>
          if token = [] then gate_halt 401 ''Access denied'' ''No token provided''
          else
            (case getUserFromToken jwt env users token of
               Inr u \<Rightarrow> Next (req \<lparr> req_user := Some u \<rparr>)
             | Inl error \<Rightarrow>
                 if err_message error = ''User not found''
                 then gate_halt 401 ''Authentication failed'' ''User not found''
                 else if err_message error = ''User account is deactivated''
                 then gate_halt 403 ''Authentication failed'' ''Account deactivated''
                 else gate_halt 401 ''Authentication failed'' ''Invalid token''))"

definition optionalAuth :: "string jwt_lib \<Rightarrow> process_env \<Rightarrow> user list \<Rightarrow> request \<Rightarrow> outcome" where
  "optionalAuth jwt env users req =
     (case extractToken req of
        None \<Rightarrow> Next req
      | Some token \<Rightarrow>
          if token = [] then Next req
          else
            (case getUserFromToken jwt env users token of
               Inr u \<Rightarrow> Next (req \<lparr> req_user := Some u \<rparr>)
             | Inl error \<Rightarrow> Next req))"

definition requireAdmin :: "request \<Rightarrow> outcome" where
  "requireAdmin req =
     (case req_user req of
        None \<Rightarrow> gate_halt 401 ''Access denied'' ''Authentication required''
      | Some u \<Rightarrow>
          if user_role u \<noteq> ''admin''
          then gate_halt 403 ''Access denied'' ''Admin privileges required''
          else Next req)"

definition requireOwnership :: "string \<Rightarrow> string \<Rightarrow> request \<Rightarrow> outcome" where
  "requireOwnership resourceIdParam userIdField req =
     (case req_user req of
        None \<Rightarrow> gate_halt 401 ''Access denied'' ''Authentication required''
      | Some u \<Rightarrow>
          if user_role u = ''admin'' then Next req
          else if (userIdField = ''userId'' \<or> userIdField = ''_id'')
                  \<and> Some (user_id u) \<noteq> map_of (req_params req) resourceIdParam
          then gate_halt 403 ''Access denied'' ''You can only access your own resources''
          else Next req)"

fun join :: "string \<Rightarrow> string list \<Rightarrow> string" where
  "join sep [] = []"
| "join sep [x] = x"
| "join sep (x # y # ys) = x @ sep @ join sep (y # ys)"

definition requireRole :: "string list \<Rightarrow> request \<Rightarrow> outcome" where
  "requireRole roles req =
     (case req_user req of
        None \<Rightarrow> gate_halt 401 ''Access denied'' ''Authentication required''
      | Some u \<Rightarrow>
          if user_role u \<notin> set roles
          then gate_halt 403 ''Access denied''
                 (''One of the following roles is required: '' @ join '', '' roles)
          else Next req)"

section \<open>The application (app.js)\<close>

text \<open>Lines 73-79: the handler mounted last, for a request that no route matched.\<close>

definition route_not_found :: "request \<Rightarrow> outcome" where
  "route_not_found req =
     Responded \<lparr> res_status = 404,
                 res_body = [(''error'', JStr ''Route not found''),
                             (''message'', JStr (''Cannot '' @ req_method req @ '' ''
                                                  @ req_originalUrl req))] \<rparr>"

text \<open>
  What a module binding holds: a function, or an object of named members. The
  \<^verbatim>\<open>module.exports\<close> of \<^verbatim>\<open>middleware/errorHandler.js\<close> (lines 163-168) is an object of
  four functions.
\<close>

datatype js_value = Fn string | Obj "(string \<times> js_value) list"

definition errorHandler_exports :: js_value where
  "errorHandler_exports =
     Obj [(''errorHandler'', Fn ''errorHandler''), (''asyncHandler'', Fn ''asyncHandler''),
          (''AppError'', Fn ''AppError''), (''notFound'', Fn ''notFound'')]"

text \<open>\<^verbatim>\<open>const { m } = require(...)\<close>: the member, when the module has it.\<close>

definition destructure :: "js_value \<Rightarrow> string \<Rightarrow> js_value option" where
  "destructure v m = (case v of Obj members \<Rightarrow> map_of members m | Fn f \<Rightarrow> None)"

text \<open>
  app.js line 10, \<^verbatim>\<open>const errorHandler = require('./middleware/errorHandler')\<close>: the
  binding is the whole exports object. The route modules write
  \<^verbatim>\<open>const { asyncHandler, AppError } = require('../middleware/errorHandler')\<close>.
\<close>

definition app_errorHandler :: js_value where
  "app_errorHandler = errorHandler_exports"

definition routes_asyncHandler :: "js_value option" where
  "routes_asyncHandler = destructure errorHandler_exports ''asyncHandler''"

text \<open>
  \<^verbatim>\<open>app.use(v)\<close> of Express 4 with one argument: a function is mounted as a layer, any
  other value is refused with a TypeError.
\<close>

definition app_use :: "js_value \<Rightarrow> js_err + string" where
  "app_use v =
     (case v of
        Fn f \<Rightarrow> Inr f
      | Obj members \<Rightarrow> Inl (TypeError_new ''app.use() requires a middleware function''))"

text \<open>app.js line 71: \<^verbatim>\<open>app.use(errorHandler)\<close>.\<close>

definition mount_errorHandler :: "js_err + string" where
  "mount_errorHandler = app_use app_errorHandler"

text \<open>
  The response a client gets from a route that is wrapped in \<^verbatim>\<open>asyncHandler\<close> when the
  error middleware behind it is the translator: the handler's own response, or the
  translation of what it threw.
\<close>

definition translated :: "process_env \<Rightarrow> string \<Rightarrow> request \<Rightarrow> js_err + response \<Rightarrow> js_err + response" where
  "translated env now req r =
     (case r of Inr res \<Rightarrow> Inr res | Inl e \<Rightarrow> errorHandler env now e req)"

section \<open>The authentication routes (routes/auth.js)\<close>

text \<open>
  Modelled from the spec: the parts of the User model that the routes call
  (\<^verbatim>\<open>server/src/models/User.js\<close> is not among the sources; its unit tests are). The
  password hash of the pre-save hook, \<^verbatim>\<open>comparePassword\<close> and \<^verbatim>\<open>toPublicJSON\<close> are
  parameters. The collection has a unique index on email and one on username; a
  violation is rejected with the storage layer's error of code 11000, whose
  \<^verbatim>\<open>keyValue\<close> names the colliding field. Which of the two indexes is reported for a
  record that collides on both is not fixed by any source: it is the parameter
  \<open>um_email_index_first\<close>. A new record has role \<^verbatim>\<open>'user'\<close> and is active. The validators of the schema are taken
  to accept what the validators of the route accepted.
\<close>

record user_model =
  um_hash :: "string \<Rightarrow> string"
  um_comparePassword :: "user \<Rightarrow> string \<Rightarrow> bool"
  um_toPublicJSON :: "user \<Rightarrow> json"
  um_email_index_first :: bool

record register_body =
  reg_username :: string
  reg_email :: string
  reg_password :: string
  reg_firstName :: "string option"
  reg_lastName :: "string option"

definition duplicate_key_error :: "string \<Rightarrow> string \<Rightarrow> js_err" where
  "duplicate_key_error field v =
     (Error_new (''E11000 duplicate key error dup key: '' @ field))
       \<lparr> err_name := ''MongoServerError'', err_code := Some (CodeNum 11000),
         err_keyValue := Some [(field, v)] \<rparr>"

definition new_user :: "user_model \<Rightarrow> string \<Rightarrow> register_body \<Rightarrow> user" where
  "new_user um new_id userData =
     \<lparr> user_id = new_id,
       user_username = reg_username userData,
       user_email = reg_email userData,
       user_password = Some (um_hash um (reg_password userData)),
       user_firstName = reg_firstName userData,
       user_lastName = reg_lastName userData,
       user_role = ''user'',
       user_isActive = True,
       user_lastLogin = None \<rparr>"

definition User_create ::
  "user_model \<Rightarrow> user list \<Rightarrow> string \<Rightarrow> register_body \<Rightarrow> js_err + (user \<times> user list)" where
  "User_create um users new_id userData =
     (let email_taken = list_ex (\<lambda>u. user_email u = reg_email userData) users;
          username_taken = list_ex (\<lambda>u. user_username u = reg_username userData) users
      in if email_taken \<and> username_taken
         then (if um_email_index_first um
               then Inl (duplicate_key_error ''email'' (reg_email userData))
               else Inl (duplicate_key_error ''username'' (reg_username userData)))
         else if email_taken then Inl (duplicate_key_error ''email'' (reg_email userData))
         else if username_taken
         then Inl (duplicate_key_error ''username'' (reg_username userData))
         else (let doc = new_user um new_id userData in Inr (doc, users @ [doc])))"

definition User_save :: "user list \<Rightarrow> user \<Rightarrow> user list" where
  "User_save users u = map (\<lambda>x. if user_id x = user_id u then u else x) users"

definition User_findOne_email_or_username :: "user list \<Rightarrow> string \<Rightarrow> string \<Rightarrow> user option" where
  "User_findOne_email_or_username users e n =
     find (\<lambda>u. user_email u = e \<or> user_username u = n) users"

definition User_findOne_email :: "user list \<Rightarrow> string \<Rightarrow> user option" where
  "User_findOne_email users e = find (\<lambda>u. user_email u = e) users"

text \<open>
  \<^verbatim>\<open>String.prototype.toLowerCase\<close> on ASCII strings, where it maps \<^verbatim>\<open>A-Z\<close> to \<^verbatim>\<open>a-z\<close> and
  leaves every other character. A character of the model is a byte, so the function
  stands for the one of the language on ASCII strings only (\<open>ascii\<close>); the statements
  below apply it to such strings.
\<close>

definition ascii :: "string \<Rightarrow> bool" where
  "ascii s = list_all (\<lambda>c. (of_char c :: nat) < 128) s"

definition toLowerCase :: "string \<Rightarrow> string" where
  "toLowerCase s =
     map (\<lambda>c. let n = (of_char c :: nat) in if 65 \<le> n \<and> n \<le> 90 then char_of (n + 32) else c) s"

definition identity_of :: "user \<Rightarrow> identity" where
  "identity_of u =
     \<lparr> ident_doc_id = Some (user_id u), ident_alias_id = Some (user_id u),
       ident_username = user_username u, ident_email = user_email u,
       ident_role = user_role u \<rparr>"

text \<open>
  \<^verbatim>\<open>validatePassword\<close> (utils/auth.js): the four rules in their order. The strength
  label that the function also returns is read by no route and is left out.
\<close>

definition char_in :: "nat \<Rightarrow> nat \<Rightarrow> char \<Rightarrow> bool" where
  "char_in lo hi c = (lo \<le> (of_char c :: nat) \<and> (of_char c :: nat) \<le> hi)"

definition validatePassword_errors :: "string \<Rightarrow> string list" where
  "validatePassword_errors password =
     (if length password < 6 then [''Password must be at least 6 characters long''] else [])
     @ (if \<not> list_ex (char_in 65 90) password
        then [''Password must contain at least one uppercase letter''] else [])
     @ (if \<not> list_ex (char_in 97 122) password
        then [''Password must contain at least one lowercase letter''] else [])
     @ (if \<not> list_ex (char_in 48 57) password
        then [''Password must contain at least one number''] else [])"

definition validatePassword_isValid :: "string \<Rightarrow> bool" where
  "validatePassword_isValid password = (validatePassword_errors password = [])"

definition truthy_field :: "string option \<Rightarrow> string option" where
  "truthy_field v = (case v of None \<Rightarrow> None | Some s \<Rightarrow> if s = [] then None else Some s)"

text \<open>Lines 74-81 of the register handler: the data of the new record.\<close>

definition userData_of :: "register_body \<Rightarrow> register_body" where
  "userData_of body =
     \<lparr> reg_username = toLowerCase (reg_username body),
       reg_email = toLowerCase (reg_email body),
       reg_password = reg_password body,
       reg_firstName = truthy_field (reg_firstName body),
       reg_lastName = truthy_field (reg_lastName body) \<rparr>"

text \<open>
  The register handler (lines 45-99) suspends at three storage calls: \<^verbatim>\<open>User.findOne\<close>,
  \<^verbatim>\<open>User.create\<close> and \<^verbatim>\<open>user.save\<close>. Between two of them it runs without interruption,
  so the handler is three atomic steps on the collection. \<open>errors\<close> is
  \<^verbatim>\<open>validationResult(req).array()\<close>, \<open>new_id\<close> the id the new record gets, \<open>now\<close> the clock.
\<close>

datatype reg_pc =
    Reg_start
  | Reg_checked
  | Reg_created user string
  | Reg_done "js_err + response"

definition register_step ::
  "string jwt_lib \<Rightarrow> process_env \<Rightarrow> user_model \<Rightarrow> string \<Rightarrow> string \<Rightarrow> json list \<Rightarrow> register_body
     \<Rightarrow> reg_pc \<times> user list \<Rightarrow> reg_pc \<times> user list" where
  "register_step jwt env um now new_id errors body st =
     (case st of
        (Reg_start, users) \<Rightarrow>
          if errors \<noteq> [] then (Reg_done (Inl (AppError ''Validation Error'' (Some 400) (JArr errors))), users)
          else if \<not> validatePassword_isValid (reg_password body)
          then (Reg_done (Inl (AppError ''Password does not meet requirements'' (Some 400)
                                 (JArr (map JStr (validatePassword_errors (reg_password body)))))),
                users)
          else
            (case User_findOne_email_or_username users
                    (toLowerCase (reg_email body)) (toLowerCase (reg_username body)) of
               Some existingUser \<Rightarrow>
                 (let field = (if user_email existingUser = toLowerCase (reg_email body)
                               then ''email'' else ''username'')
                  in (Reg_done (Inl (AppError ''User already exists'' (Some 400)
                                       (JStr (''A user with this '' @ field @ '' already exists'')))),
                      users))
             | None \<Rightarrow> (Reg_checked, users))
      | (Reg_checked, users) \<Rightarrow>
          (let userData = userData_of body
           in case User_create um users new_id userData of
                Inl e \<Rightarrow> (Reg_done (Inl e), users)
              | Inr (u, users') \<Rightarrow>
                  (case generateToken jwt env (identity_of u) of
                     Inl e \<Rightarrow> (Reg_done (Inl e), users')
                   | Inr token \<Rightarrow> (Reg_created (u \<lparr> user_lastLogin := Some now \<rparr>) token, users')))
      | (Reg_created u token, users) \<Rightarrow>
          (Reg_done (Inr \<lparr> res_status = 201,
                           res_body = [(''message'', JStr ''User registered successfully''),
                                       (''token'', JStr token),
                                       (''user'', um_toPublicJSON um u)] \<rparr>),
           User_save users u)
      | (Reg_done r, users) \<Rightarrow> (Reg_done r, users))"

text \<open>One request alone: the three steps in a row.\<close>

definition register ::
  "string jwt_lib \<Rightarrow> process_env \<Rightarrow> user_model \<Rightarrow> string \<Rightarrow> string \<Rightarrow> json list \<Rightarrow> register_body
     \<Rightarrow> user list \<Rightarrow> reg_pc \<times> user list" where
  "register jwt env um now new_id errors body users =
     (let step = register_step jwt env um now new_id errors body
      in step (step (step (Reg_start, users))))"

text \<open>
  Two register requests in flight: a schedule says which of the two takes its next
  step (\<open>True\<close> the first, \<open>False\<close> the second). Each request has its own id, validation
  result and body.
\<close>

fun race ::
  "(reg_pc \<times> user list \<Rightarrow> reg_pc \<times> user list) \<Rightarrow> (reg_pc \<times> user list \<Rightarrow> reg_pc \<times> user list)
     \<Rightarrow> bool list \<Rightarrow> reg_pc \<times> reg_pc \<times> user list \<Rightarrow> reg_pc \<times> reg_pc \<times> user list" where
  "race stepA stepB [] st = st"
| "race stepA stepB (True # sched) (a, b, users) =
     (case stepA (a, users) of (a', users') \<Rightarrow> race stepA stepB sched (a', b, users'))"
| "race stepA stepB (False # sched) (a, b, users) =
     (case stepB (b, users) of (b', users') \<Rightarrow> race stepA stepB sched (a, b', users'))"

fun interleave :: "'a list \<Rightarrow> 'a list \<Rightarrow> 'a list list" where
  "interleave [] ys = [ys]"
| "interleave xs [] = [xs]"
| "interleave (x # xs) (y # ys) =
     map ((#) x) (interleave xs (y # ys)) @ map ((#) y) (interleave (x # xs) ys)"

definition schedules :: "bool list list" where
  "schedules = interleave [True, True, True] [False, False, False]"

text \<open>
  Where in a schedule a request makes its storage calls: \<open>findOne_at\<close> is the position
  of its first step (the existence check), \<open>create_at\<close> the position of its second
  (the insertion).
\<close>

fun call_position :: "bool \<Rightarrow> nat \<Rightarrow> bool list \<Rightarrow> nat" where
  "call_position w k [] = 0"
| "call_position w k (x # xs) =
     (if x = w then (case k of 0 \<Rightarrow> 0 | Suc j \<Rightarrow> Suc (call_position w j xs))
      else Suc (call_position w k xs))"

definition findOne_at :: "bool \<Rightarrow> bool list \<Rightarrow> nat" where
  "findOne_at w s = call_position w 0 s"

definition create_at :: "bool \<Rightarrow> bool list \<Rightarrow> nat" where
  "create_at w s = call_position w (Suc 0) s"

text \<open>
  A finished registration whose client got, after translation, a 400 envelope with a
  given message and given details.
\<close>

definition reg_rejected ::
  "process_env \<Rightarrow> string \<Rightarrow> request \<Rightarrow> string \<Rightarrow> string \<Rightarrow> reg_pc \<Rightarrow> bool" where
  "reg_rejected env now req msg det pc =
     (case pc of
        Reg_done r \<Rightarrow>
          (case translated env now req r of
             Inr res \<Rightarrow>
               res_status res = 400
               \<and> map_of (res_body res) ''error'' = Some (JStr msg)
               \<and> map_of (res_body res) ''status'' = Some (JNum 400)
               \<and> map_of (res_body res) ''details'' = Some (JStr det)
           | Inl e \<Rightarrow> False)
      | _ \<Rightarrow> False)"

text \<open>The login handler (lines 115-160).\<close>

record login_body =
  body_login :: string
  body_password :: string

definition login ::
  "string jwt_lib \<Rightarrow> process_env \<Rightarrow> user_model \<Rightarrow> string \<Rightarrow> json list \<Rightarrow> login_body
     \<Rightarrow> user list \<Rightarrow> (js_err + response) \<times> user list" where
  "login jwt env um now errors body users =
     (if errors \<noteq> [] then (Inl (AppError ''Validation Error'' (Some 400) (JArr errors)), users)
      else
        (case User_findOne_email_or_username users
                (toLowerCase (body_login body)) (toLowerCase (body_login body)) of
           None \<Rightarrow> (Inl (AppError ''Invalid credentials'' (Some 401) (JStr ''User not found'')), users)
         | Some u \<Rightarrow>
             if \<not> user_isActive u
             then (Inl (AppError ''Account deactivated'' (Some 403)
                          (JStr ''Your account has been deactivated'')), users)
             else if \<not> um_comparePassword um u (body_password body)
             then (Inl (AppError ''Invalid credentials'' (Some 401) (JStr ''Incorrect password'')),
                   users)
             else
               (case generateToken jwt env (identity_of u) of
                  Inl e \<Rightarrow> (Inl e, users)
                | Inr token \<Rightarrow>
                    (let u' = u \<lparr> user_lastLogin := Some now \<rparr>
                     in (Inr \<lparr> res_status = 200,
                               res_body = [(''message'', JStr ''Login successful''),
                                           (''token'', JStr token),
                                           (''user'', um_toPublicJSON um u')] \<rparr>,
                         User_save users u')))))"

text \<open>The forgot-password handler (lines 173-193): the lookup only decides a log line.\<close>

definition forgot_password :: "json list \<Rightarrow> string \<Rightarrow> user list \<Rightarrow> js_err + response" where
  "forgot_password errors email users =
     (if errors \<noteq> [] then Inl (AppError ''Validation Error'' (Some 400) (JArr errors))
      else
        (let u = User_findOne_email users (toLowerCase email)
         in Inr \<lparr> res_status = 200,
                  res_body = [(''message'',
                     JStr ''If an account with this email exists, a password reset link has been sent'')] \<rparr>))"

section \<open>Stand-ins for running concrete requests\<close>

text \<open>
  A signing library on string tokens that answers from a table, and a User model with
  a transparent hash: what the examples below run the gates and the routes with.
\<close>

definition table_jwt :: "(string \<times> (js_err + jwt_claims)) list \<Rightarrow> string jwt_lib" where
  "table_jwt table =
     \<lparr> jwt_sign = (\<lambda>payload secret opts.
         case claim_id payload of
           None \<Rightarrow> Inl (Error_new ''payload has no id'')
         | Some i \<Rightarrow> Inr (''token-of-'' @ i)),
       jwt_verify = (\<lambda>token secret opts.
         case map_of table token of
           None \<Rightarrow> Inl (JsonWebTokenError ''jwt malformed'')
         | Some r \<Rightarrow> r) \<rparr>"

definition plain_model :: user_model where
  "plain_model =
     \<lparr> um_hash = (\<lambda>p. ''hash:'' @ p),
       um_comparePassword = (\<lambda>u p. user_password u = Some (''hash:'' @ p)),
       um_toPublicJSON = (\<lambda>u. JObj [(''_id'', JStr (user_id u)),
                                      (''username'', JStr (user_username u)),
                                      (''email'', JStr (user_email u)),
                                      (''role'', JStr (user_role u)),
                                      (''isActive'', JBool (user_isActive u))]),
       um_email_index_first = True \<rparr>"

definition test_env :: process_env where
  "test_env = \<lparr> NODE_ENV = Some ''test'', env_JWT_SECRET = Some ''test-jwt-secret-key'',
                env_JWT_EXPIRE = None \<rparr>"

definition alice :: user where
  "alice = \<lparr> user_id = ''64b000000000000000000001'', user_username = ''alice'',
             user_email = ''alice@example.com'', user_password = Some ''hash:Secret1'',
             user_firstName = None, user_lastName = None, user_role = ''user'',
             user_isActive = True, user_lastLogin = None \<rparr>"

definition get_request :: "string \<Rightarrow> string option \<Rightarrow> request" where
  "get_request url authorization =
     \<lparr> req_method = ''GET'', req_originalUrl = url, req_authorization = authorization,
       req_params = [], req_user = None, req_requestId = None \<rparr>"

definition post_request :: "string \<Rightarrow> request" where
  "post_request url =
     \<lparr> req_method = ''POST'', req_originalUrl = url, req_authorization = None,
       req_params = [], req_user = None, req_requestId = None \<rparr>"

definition alice_claims :: jwt_claims where
  "alice_claims =
     \<lparr> claim_id = Some ''64b000000000000000000001'', claim_username = Some ''alice'',
       claim_email = Some ''alice@example.com'', claim_role = Some ''user'',
       claim_iss = Some ''mern-testing-app'', claim_aud = Some ''mern-testing-users'',
       claim_iat = Some 1000, claim_exp = Some 605800 \<rparr>"

text \<open>
  Two identity records of the same user: one whose \<^verbatim>\<open>_id\<close> and \<^verbatim>\<open>id\<close> differ, one that
  carries only \<^verbatim>\<open>id\<close>.
\<close>

definition alice_both_ids :: identity where
  "alice_both_ids =
     \<lparr> ident_doc_id = Some ''64b000000000000000000001'', ident_alias_id = Some ''alias-of-alice'',
       ident_username = ''alice'', ident_email = ''alice@example.com'', ident_role = ''user'' \<rparr>"

definition alice_alias_only :: identity where
  "alice_alias_only =
     \<lparr> ident_doc_id = None, ident_alias_id = Some ''64b000000000000000000001'',
       ident_username = ''alice'', ident_email = ''alice@example.com'', ident_role = ''user'' \<rparr>"

definition seven_days :: "string \<Rightarrow> int option" where
  "seven_days s = (if s = ''7d'' then Some 604800 else None)"

definition bob_body :: register_body where
  "bob_body = \<lparr> reg_username = ''bob'', reg_email = ''bob@example.com'',
                reg_password = ''Secret1'', reg_firstName = None, reg_lastName = None \<rparr>"

definition robert_body :: register_body where
  "robert_body = \<lparr> reg_username = ''robert'', reg_email = ''bob@example.com'',
                   reg_password = ''Secret2'', reg_firstName = None, reg_lastName = None \<rparr>"

text \<open>
  A malformed-identifier error of the storage layer that a handler has marked as an
  expected failure with its own status before passing it on.
\<close>

definition cast_error_marked_operational :: js_err where
  "cast_error_marked_operational =
     (Error_new ''Cast to ObjectId failed'')
       \<lparr> err_name := ''CastError'', err_isOperational := True, err_statusCode := Some 404 \<rparr>"

section \<open>Proofs\<close>

declare show_nat.simps [simp del]

lemma on_ok_simps:
  "on_ok (Inl e) f = Inl e"
  "on_ok (Inr x) f = f x"
  by (simp_all add: on_ok_def)

subsection \<open>The translator runs its table in order\<close>

lemma run_rules_Nil: "run_rules [] err = Inr default_classification"
  by (simp add: run_rules_def)

lemma run_rules_snoc:
  "run_rules (rs @ [r]) err =
     on_ok (run_rules rs err) (\<lambda>c. if fst r err then snd r err else Inr c)"
  by (simp add: run_rules_def)

lemma matching_snoc:
  "matching (rs @ [r]) err = matching rs err @ (if fst r err then [r] else [])"
  by (simp add: matching_def)

lemma run_rules_last_match:
  "run_rules rs err = Inr c \<Longrightarrow>
     (case last_match rs err of None \<Rightarrow> c = default_classification | Some r \<Rightarrow> r = Inr c)"
proof (induction rs arbitrary: c rule: rev_induct)
  case Nil
  then show ?case by (simp add: run_rules_Nil last_match_def matching_def)
next
  case (snoc r rs)
  from snoc.prems obtain c0 where c0: "run_rules rs err = Inr c0"
    by (cases "run_rules rs err") (simp_all add: run_rules_snoc on_ok_simps)
  show ?case
  proof (cases "fst r err")
    case True
    with snoc.prems c0 show ?thesis
      by (simp add: run_rules_snoc on_ok_simps last_match_def matching_snoc)
  next
    case False
    with snoc.prems c0 have "c = c0" by (simp add: run_rules_snoc on_ok_simps)
    moreover from False have "last_match (rs @ [r]) err = last_match rs err"
      by (simp add: last_match_def matching_snoc)
    ultimately show ?thesis using snoc.IH[OF c0] by (auto split: option.splits)
  qed
qed

lemma run_rules_no_match:
  "matching rs err = [] \<Longrightarrow> run_rules rs err = Inr default_classification"
proof (induction rs rule: rev_induct)
  case Nil
  show ?case by (simp add: run_rules_Nil)
next
  case (snoc r rs)
  then show ?case
    by (simp add: run_rules_snoc matching_snoc on_ok_simps split: if_splits)
qed

lemma run_rules_returns:
  "(\<exists>c. run_rules rs err = Inr c) = list_all (\<lambda>r. \<exists>c. snd r err = Inr c) (matching rs err)"
proof (induction rs rule: rev_induct)
  case Nil
  show ?case by (simp add: run_rules_Nil matching_def)
next
  case (snoc r rs)
  show ?case
  proof (cases "run_rules rs err")
    case (Inl e)
    with snoc show ?thesis by (simp add: run_rules_snoc matching_snoc on_ok_simps)
  next
    case (Inr c0)
    with snoc show ?thesis by (simp add: run_rules_snoc matching_snoc on_ok_simps)
  qed
qed

lemma update_all [simp]:
  "(c::classification) \<lparr> statusCode := s, message := m, details := d \<rparr>
     = \<lparr> statusCode = s, message = m, details = d \<rparr>"
  by (cases c) simp

lemma classify_run_rules:
  "errorHandler_classify err = run_rules classification_rules err"
  unfolding errorHandler_classify_def run_rules_def classification_rules_def Let_def
    static_row_def computed_row_def operational_row_def default_classification_def
  by (simp only: foldl.simps fst_conv snd_conv update_all)

lemma classify_AppError:
  "errorHandler_classify (AppError m st d) =
     Inr \<lparr> statusCode = (case st of None \<Rightarrow> 400 | Some n \<Rightarrow> if n = 0 then 400 else n),
           message = m, details = (if truthy d then d else JNull) \<rparr>"
  by (simp add: errorHandler_classify_def AppError_def Error_new_def on_ok_simps)

lemma classify_duplicate_key_error:
  "errorHandler_classify (duplicate_key_error f v) =
     Inr \<lparr> statusCode = 400, message = ''Duplicate field value'',
           details = JStr (f @ '' '' @ [CHR 0x27] @ v @ [CHR 0x27] @ '' already exists'') \<rparr>"
  by (simp add: errorHandler_classify_def duplicate_key_error_def Error_new_def on_ok_simps
      duplicate_details_def)

lemma forgot_password_independent:
  "forgot_password [] email users = forgot_password [] email' users'"
  by (simp add: forgot_password_def)

lemma has_fields_envelope:
  "errorHandler env now err req = Inr res \<Longrightarrow>
     has_fields envelope_fields res
     \<and> map_of (res_body res) ''status'' = Some (JNum (res_status res))
     \<and> map_of (res_body res) ''timestamp'' = Some (JStr now)
     \<and> map_of (res_body res) ''path'' = Some (JStr (req_originalUrl req))
     \<and> map_of (res_body res) ''method'' = Some (JStr (req_method req))"
  by (cases "errorHandler_classify err")
     (auto simp: errorHandler_def send_json_def on_ok_simps Let_def has_fields_def
           envelope_fields_def split: option.splits if_splits)

lemma errorHandler_returns:
  "(\<exists>res. errorHandler env now err req = Inr res) =
     (\<exists>c. errorHandler_classify err = Inr c \<and> 100 \<le> statusCode c \<and> statusCode c \<le> 999)"
  by (cases "errorHandler_classify err")
     (auto simp: errorHandler_def send_json_def on_ok_simps Let_def)

lemma auth_halt_keys:
  "auth jwt env users req = Responded res \<Longrightarrow> map fst (res_body res) = [''error'', ''message'']"
  by (auto simp: auth_def gate_halt_def split: option.splits sum.splits if_splits)

lemma gates_halt_keys:
  "requireAdmin req = Responded res \<or> requireOwnership p f req = Responded res
     \<or> requireRole roles req = Responded res \<or> route_not_found req = Responded res
   \<Longrightarrow> map fst (res_body res) = [''error'', ''message'']"
  by (auto simp: requireAdmin_def requireOwnership_def requireRole_def route_not_found_def
       gate_halt_def split: option.splits if_splits)

lemma auth_never_forwards: "auth jwt env users req \<noteq> NextError e"
  by (auto simp: auth_def gate_halt_def split: option.splits sum.splits)

lemma asyncHandler_forwards:
  "asyncHandler fn req = NextError e \<longleftrightarrow> fn req = Inl e"
  by (auto simp: asyncHandler_def split: sum.splits)

lemma table_jwt_generateToken:
  "generateToken (table_jwt table) env (identity_of u) = Inr (''token-of-'' @ user_id u)"
  by (simp add: generateToken_def table_jwt_def identity_of_def subject_id_def)

subsection \<open>The steps of a registration\<close>

lemma find_none: "list_all (\<lambda>u. \<not> P u) xs \<Longrightarrow> find P xs = None"
  by (induction xs) auto

lemma find_snoc_hit: "list_all (\<lambda>u. \<not> P u) xs \<Longrightarrow> P d \<Longrightarrow> find P (xs @ [d]) = Some d"
  by (induction xs) auto

lemma list_ex_none: "list_all (\<lambda>u. \<not> P u) xs \<Longrightarrow> \<not> list_ex P xs"
  by (induction xs) auto

lemma list_ex_snoc_hit: "P d \<Longrightarrow> list_ex P (xs @ [d])"
  by (induction xs) auto

lemma User_save_last:
  "list_all (\<lambda>u. user_id u \<noteq> user_id d) xs \<Longrightarrow> user_id d' = user_id d \<Longrightarrow>
   User_save (xs @ [d]) d' = xs @ [d']"
  by (induction xs) (auto simp: User_save_def)

lemma step_check_passes:
  assumes "validatePassword_isValid (reg_password body)"
    and "list_all (\<lambda>u. \<not> (user_email u = toLowerCase (reg_email body)
                          \<or> user_username u = toLowerCase (reg_username body))) S"
  shows "register_step jwt env um now i [] body (Reg_start, S) = (Reg_checked, S)"
  using assms(1) find_none[OF assms(2)]
  by (simp add: register_step_def User_findOne_email_or_username_def)

lemma step_check_collides:
  assumes "validatePassword_isValid (reg_password body)"
    and "list_all (\<lambda>u. \<not> (user_email u = toLowerCase (reg_email body)
                          \<or> user_username u = toLowerCase (reg_username body))) U"
    and "user_email d = toLowerCase (reg_email body)"
  shows "register_step jwt env um now i [] body (Reg_start, U @ [d]) =
           (Reg_done (Inl (AppError ''User already exists'' (Some 400)
                             (JStr ''A user with this email already exists''))), U @ [d])"
  using assms(1,3) find_snoc_hit[OF assms(2), of d]
  by (simp add: register_step_def User_findOne_email_or_username_def)

lemma step_create_ok:
  assumes "list_all (\<lambda>u. \<not> user_email u = toLowerCase (reg_email body)) S"
    and "list_all (\<lambda>u. \<not> user_username u = toLowerCase (reg_username body)) S"
    and "generateToken jwt env (identity_of (new_user um i (userData_of body))) = Inr tok"
  shows "register_step jwt env um now i [] body (Reg_checked, S) =
           (Reg_created ((new_user um i (userData_of body)) \<lparr> user_lastLogin := Some now \<rparr>) tok,
            S @ [new_user um i (userData_of body)])"
  using assms(3) list_ex_none[OF assms(1)] list_ex_none[OF assms(2)]
  by (simp add: register_step_def User_create_def userData_of_def Let_def)

lemma step_create_duplicate:
  assumes "list_all (\<lambda>u. \<not> user_username u = toLowerCase (reg_username body)) U"
    and "user_username d \<noteq> toLowerCase (reg_username body)"
    and "user_email d = toLowerCase (reg_email body)"
  shows "register_step jwt env um now i [] body (Reg_checked, U @ [d]) =
           (Reg_done (Inl (duplicate_key_error ''email'' (toLowerCase (reg_email body)))), U @ [d])"
  using list_ex_none[OF assms(1)] assms(2,3)
    list_ex_snoc_hit[of "\<lambda>u. user_email u = toLowerCase (reg_email body)" d U]
  by (simp add: register_step_def User_create_def userData_of_def Let_def)

lemma step_save:
  "register_step jwt env um now i errs body (Reg_created u tok, S) =
     (Reg_done (Inr \<lparr> res_status = 201,
                      res_body = [(''message'', JStr ''User registered successfully''),
                                  (''token'', JStr tok),
                                  (''user'', um_toPublicJSON um u)] \<rparr>),
      User_save S u)"
  by (simp add: register_step_def)

lemma step_done:
  "register_step jwt env um now i errs body (Reg_done r, S) = (Reg_done r, S)"
  by (simp add: register_step_def)

lemma errorHandler_user_exists:
  "\<exists>res. errorHandler env now
            (AppError ''User already exists'' (Some 400)
               (JStr ''A user with this email already exists'')) req = Inr res
         \<and> res_status res = 400
         \<and> map_of (res_body res) ''error'' = Some (JStr ''User already exists'')
         \<and> map_of (res_body res) ''status'' = Some (JNum 400)
         \<and> map_of (res_body res) ''details'' =
             Some (JStr ''A user with this email already exists'')"
  by (simp add: errorHandler_def send_json_def classify_AppError on_ok_simps Let_def
      split: option.splits)

lemma errorHandler_duplicate_email:
  "\<exists>res. errorHandler env now (duplicate_key_error ''email'' v) req = Inr res
         \<and> res_status res = 400
         \<and> map_of (res_body res) ''error'' = Some (JStr ''Duplicate field value'')
         \<and> map_of (res_body res) ''status'' = Some (JNum 400)
         \<and> map_of (res_body res) ''details'' =
             Some (JStr (''email '' @ [CHR 0x27] @ v @ [CHR 0x27] @ '' already exists''))"
  by (simp add: errorHandler_def send_json_def classify_duplicate_key_error on_ok_simps Let_def
      split: option.splits)

lemma schedules_eq: "schedules =
 [[True, True, True, False, False, False],
  [True, True, False, True, False, False],
  [True, True, False, False, True, False],
  [True, True, False, False, False, True],
  [True, False, True, True, False, False],
  [True, False, True, False, True, False],
  [True, False, True, False, False, True],
  [True, False, False, True, True, False],
  [True, False, False, True, False, True],
  [True, False, False, False, True, True],
  [False, True, True, True, False, False],
  [False, True, True, False, True, False],
  [False, True, True, False, False, True],
  [False, True, False, True, True, False],
  [False, True, False, True, False, True],
  [False, True, False, False, True, True],
  [False, False, True, True, True, False],
  [False, False, True, True, False, True],
  [False, False, True, False, True, True],
  [False, False, False, True, True, True]]"
  by (simp add: schedules_def)

section \<open>The claims\<close>

text \<open>
  Claim C1. As stated (every failing request, also one halted by the auth middleware
  or answered by the unmatched-route handler, gets an envelope with error, status,
  timestamp, path and method) the claim fails on the code: a gate and the 404 handler
  send a body of exactly two fields, \<open>error\<close> and \<open>message\<close>. What holds: every response
  that \<^verbatim>\<open>errorHandler\<close> sends is one envelope in which error, status, timestamp, path
  and method are all present (status the HTTP status, timestamp the clock, path and
  method those of the request); \<^verbatim>\<open>errorHandler\<close> sends a response exactly when its
  classification returns with a status within 100..999, and throws otherwise; and the
  halting responses of \<^verbatim>\<open>auth\<close>, \<^verbatim>\<open>requireAdmin\<close>, \<^verbatim>\<open>requireOwnership\<close>, \<^verbatim>\<open>requireRole\<close>
  and of the unmatched-route handler carry exactly \<open>error\<close> and \<open>message\<close>.
\<close>

theorem envelope_only_from_errorHandler:
  "(errorHandler env now err req = Inr res \<longrightarrow>
      has_fields envelope_fields res
      \<and> map_of (res_body res) ''status'' = Some (JNum (res_status res))
      \<and> map_of (res_body res) ''timestamp'' = Some (JStr now)
      \<and> map_of (res_body res) ''path'' = Some (JStr (req_originalUrl req))
      \<and> map_of (res_body res) ''method'' = Some (JStr (req_method req)))
   \<and> ((\<exists>r. errorHandler env now err req = Inr r) =
        (\<exists>c. errorHandler_classify err = Inr c \<and> 100 \<le> statusCode c \<and> statusCode c \<le> 999))
   \<and> (auth jwt env users req = Responded res' \<or> requireAdmin req = Responded res'
        \<or> requireOwnership p f req = Responded res' \<or> requireRole roles req = Responded res'
        \<or> route_not_found req = Responded res'
      \<longrightarrow> map fst (res_body res') = [''error'', ''message''])"
  using has_fields_envelope[of env now err req res] errorHandler_returns[of env now err req]
    auth_halt_keys[of jwt env users req res'] gates_halt_keys[of req res' p f roles]
  by blast

theorem envelope_only_from_errorHandler_witness:
  "errorHandler test_env ''2025-01-01T00:00:00.000Z'' (AppError ''Post not found'' (Some 404) JNull)
     (get_request ''/api/posts/1'' None)
   = Inr \<lparr> res_status = 404,
           res_body = [(''error'', JStr ''Post not found''), (''status'', JNum 404),
                       (''timestamp'', JStr ''2025-01-01T00:00:00.000Z''),
                       (''path'', JStr ''/api/posts/1''), (''method'', JStr ''GET'')] \<rparr>
   \<and> has_fields envelope_fields
         \<lparr> res_status = 404,
           res_body = [(''error'', JStr ''Post not found''), (''status'', JNum 404),
                       (''timestamp'', JStr ''2025-01-01T00:00:00.000Z''),
                       (''path'', JStr ''/api/posts/1''), (''method'', JStr ''GET'')] \<rparr>
   \<and> errorHandler_classify (AppError ''Broken'' (Some (-1)) JNull)
     = Inr \<lparr> statusCode = - 1, message = ''Broken'', details = JNull \<rparr>
   \<and> errorHandler test_env ''2025-01-01T00:00:00.000Z'' (AppError ''Broken'' (Some (-1)) JNull)
       (get_request ''/api/posts/1'' None)
     = Inl (invalid_status_code (- 1))
   \<and> auth (table_jwt []) test_env [] (get_request ''/api/posts/1'' None)
     = Responded \<lparr> res_status = 401,
                   res_body = [(''error'', JStr ''Access denied''),
                               (''message'', JStr ''No token provided'')] \<rparr>
   \<and> map fst [(''error'', JStr ''Access denied''), (''message'', JStr ''No token provided'')]
     = [''error'', ''message'']"
proof -
  let ?req = "get_request ''/api/posts/1'' None"
  let ?res = "\<lparr> res_status = 404,
           res_body = [(''error'', JStr ''Post not found''), (''status'', JNum 404),
                       (''timestamp'', JStr ''2025-01-01T00:00:00.000Z''),
                       (''path'', JStr ''/api/posts/1''), (''method'', JStr ''GET'')] \<rparr>"
  let ?halt = "\<lparr> res_status = 401,
                   res_body = [(''error'', JStr ''Access denied''),
                               (''message'', JStr ''No token provided'')] \<rparr>"
  have e: "errorHandler test_env ''2025-01-01T00:00:00.000Z''
             (AppError ''Post not found'' (Some 404) JNull) ?req = Inr ?res"
    by (simp add: errorHandler_def send_json_def classify_AppError on_ok_simps get_request_def
        test_env_def)
  have k: "errorHandler_classify (AppError ''Broken'' (Some (-1)) JNull)
             = Inr \<lparr> statusCode = - 1, message = ''Broken'', details = JNull \<rparr>"
    by (simp add: classify_AppError)
  have t: "errorHandler test_env ''2025-01-01T00:00:00.000Z''
             (AppError ''Broken'' (Some (-1)) JNull) ?req = Inl (invalid_status_code (- 1))"
    by (simp add: errorHandler_def send_json_def classify_AppError on_ok_simps)
  have a: "auth (table_jwt []) test_env [] ?req = Responded ?halt"
    by (simp add: auth_def extractToken_def get_request_def gate_halt_def)
  from e k t a
    envelope_only_from_errorHandler[of test_env "''2025-01-01T00:00:00.000Z''"
      "AppError ''Post not found'' (Some 404) JNull" ?req ?res "table_jwt []" "[]" ?halt]
  show ?thesis by (simp add: get_request_def)
qed

theorem gate_and_404_responses_lack_envelope_fields:
  "auth (table_jwt []) test_env [] (get_request ''/api/posts'' None) =
     Responded \<lparr> res_status = 401,
                 res_body = [(''error'', JStr ''Access denied''),
                             (''message'', JStr ''No token provided'')] \<rparr>
   \<and> \<not> has_fields envelope_fields
         \<lparr> res_status = 401,
           res_body = [(''error'', JStr ''Access denied''),
                       (''message'', JStr ''No token provided'')] \<rparr>
   \<and> route_not_found (get_request ''/api/nowhere'' None) =
     Responded \<lparr> res_status = 404,
                 res_body = [(''error'', JStr ''Route not found''),
                             (''message'', JStr ''Cannot GET /api/nowhere'')] \<rparr>
   \<and> \<not> has_fields envelope_fields
         \<lparr> res_status = 404,
           res_body = [(''error'', JStr ''Route not found''),
                       (''message'', JStr ''Cannot GET /api/nowhere'')] \<rparr>"
  by (simp add: auth_def extractToken_def get_request_def gate_halt_def has_fields_def
      envelope_fields_def route_not_found_def)

text \<open>
  Claim C2. Every failure raised in a route handler reaches the \<^verbatim>\<open>errorHandler\<close>
  translator mounted in the app. \<^verbatim>\<open>asyncHandler\<close> does hand every failure to \<^verbatim>\<open>next\<close>
  (\<open>asyncHandler_forwards\<close>), but the app does not mount the translator: the binding
  \<^verbatim>\<open>errorHandler\<close> of app.js is the whole exports object of the module, whose member
  \<^verbatim>\<open>errorHandler\<close> is the function, and \<^verbatim>\<open>app.use\<close> of that object throws a TypeError
  when app.js is loaded.
\<close>

theorem app_mounts_exports_object_not_errorHandler:
  "mount_errorHandler = Inl (TypeError_new ''app.use() requires a middleware function'')
   \<and> app_errorHandler \<noteq> Fn ''errorHandler''
   \<and> destructure app_errorHandler ''errorHandler'' = Some (Fn ''errorHandler'')
   \<and> routes_asyncHandler = Some (Fn ''asyncHandler'')"
  by (simp add: mount_errorHandler_def app_use_def app_errorHandler_def errorHandler_exports_def
      destructure_def routes_asyncHandler_def)

text \<open>
  Claim C3. As stated (for each response field the first rule whose signal matches
  determines the value, later rules refining only the details) the claim fails on the
  code. What holds: the rules are checked in order and every rule that matches
  overwrites status, message and details together, so the last rule that matches
  determines all three; an error that matches no rule gets status 500, the message
  \<^verbatim>\<open>Internal Server Error\<close> and no details; and the classification returns exactly when
  the details computation of every matching rule returns.
\<close>

theorem errorHandler_last_matching_rule_wins:
  "(matching classification_rules err = [] \<longrightarrow>
      errorHandler_classify err =
        Inr \<lparr> statusCode = 500, message = ''Internal Server Error'', details = JNull \<rparr>
      \<and> (\<forall>res. errorHandler env now err req = Inr res \<longrightarrow>
            res_status res = 500
            \<and> map_of (res_body res) ''error'' = Some (JStr ''Internal Server Error'')
            \<and> map_of (res_body res) ''details'' = None))
   \<and> (errorHandler_classify err = Inr c \<longrightarrow>
        (case last_match classification_rules err of
           None \<Rightarrow> c = default_classification
         | Some r \<Rightarrow> r = Inr c))
   \<and> ((\<exists>c. errorHandler_classify err = Inr c) =
        list_all (\<lambda>r. \<exists>c. snd r err = Inr c) (matching classification_rules err))"
proof (intro conjI impI allI)
  assume nm: "matching classification_rules err = []"
  then show d: "errorHandler_classify err =
        Inr \<lparr> statusCode = 500, message = ''Internal Server Error'', details = JNull \<rparr>"
    using run_rules_no_match[of classification_rules err]
    by (simp add: classify_run_rules default_classification_def)
  fix res assume "errorHandler env now err req = Inr res"
  with d have r: "res_status res = 500
            \<and> map_of (res_body res) ''error'' = Some (JStr ''Internal Server Error'')
            \<and> map_of (res_body res) ''details'' = None"
    by (auto simp: errorHandler_def send_json_def on_ok_simps Let_def
        split: option.splits if_splits)
  from r show "res_status res = 500" by simp
  from r show "map_of (res_body res) ''error'' = Some (JStr ''Internal Server Error'')" by simp
  from r show "map_of (res_body res) ''details'' = None" by simp
next
  assume "errorHandler_classify err = Inr c"
  then show "case last_match classification_rules err of
           None \<Rightarrow> c = default_classification
         | Some r \<Rightarrow> r = Inr c"
    using run_rules_last_match[of classification_rules err c] by (simp add: classify_run_rules)
next
  show "(\<exists>c. errorHandler_classify err = Inr c) =
        list_all (\<lambda>r. \<exists>c. snd r err = Inr c) (matching classification_rules err)"
    using run_rules_returns[of classification_rules err] by (simp add: classify_run_rules)
qed

theorem errorHandler_last_matching_rule_wins_witness:
  "matching classification_rules (Error_new ''boom'') = []
   \<and> errorHandler_classify (Error_new ''boom'') =
       Inr \<lparr> statusCode = 500, message = ''Internal Server Error'', details = JNull \<rparr>
   \<and> errorHandler_classify cast_error_marked_operational =
       Inr \<lparr> statusCode = 404, message = ''Cast to ObjectId failed'', details = JNull \<rparr>
   \<and> last_match classification_rules cast_error_marked_operational =
       Some (Inr \<lparr> statusCode = 404, message = ''Cast to ObjectId failed'', details = JNull \<rparr>)"
proof -
  let ?c = "\<lparr> statusCode = 404, message = ''Cast to ObjectId failed'', details = JNull \<rparr>"
  have m: "matching classification_rules (Error_new ''boom'') = []"
    by (simp add: matching_def classification_rules_def Error_new_def errors_truthy_def)
  have k: "errorHandler_classify cast_error_marked_operational = Inr ?c"
    by (simp add: errorHandler_classify_def cast_error_marked_operational_def Error_new_def
        on_ok_simps)
  have l: "last_match classification_rules cast_error_marked_operational \<noteq> None"
    by (simp add: last_match_def matching_def classification_rules_def
        cast_error_marked_operational_def Error_new_def errors_truthy_def)
  from m k l
    errorHandler_last_matching_rule_wins[of "Error_new ''boom''" test_env "''t''"
      "get_request ''/'' None" ?c]
    errorHandler_last_matching_rule_wins[of cast_error_marked_operational test_env "''t''"
      "get_request ''/'' None" ?c]
  show ?thesis by (auto split: option.splits)
qed

theorem errorHandler_first_match_counterexample:
  "\<not> first_match_fixes_status_and_message cast_error_marked_operational"
  by (simp add: first_match_fixes_status_and_message_def first_match_def matching_def
      classification_rules_def cast_error_marked_operational_def Error_new_def static_row_def
      errorHandler_classify_def on_ok_simps)

text \<open>
  Claim C4. For every token that verifies: when its subject id is the id of a stored
  user whose active flag is true, \<^verbatim>\<open>getUserFromToken\<close> returns that record without
  the password; when no record has that id it fails with the error
  \<^verbatim>\<open>User not found\<close>; when the record's active flag is false it fails with the
  account-deactivated error (message \<^verbatim>\<open>User account is deactivated\<close>, which the
  \<^verbatim>\<open>auth\<close> gate answers with 403 and \<^verbatim>\<open>Account deactivated\<close>).
\<close>

theorem getUserFromToken_resolution:
  assumes "verifyToken jwt env token = Inr decoded"
  shows "(\<forall>u. User_findById users (claim_id decoded) = Some u \<and> user_isActive u \<longrightarrow>
            getUserFromToken jwt env users token = Inr (u \<lparr> user_password := None \<rparr>))
       \<and> (User_findById users (claim_id decoded) = None \<longrightarrow>
            getUserFromToken jwt env users token = Inl (Error_new ''User not found''))
       \<and> (\<forall>u. User_findById users (claim_id decoded) = Some u \<and> \<not> user_isActive u \<longrightarrow>
            getUserFromToken jwt env users token = Inl (Error_new ''User account is deactivated'')
            \<and> (\<forall>req. token \<noteq> [] \<and> req_authorization req = Some (''Bearer '' @ token) \<longrightarrow>
                  auth jwt env users req =
                    Responded \<lparr> res_status = 403,
                                res_body = [(''error'', JStr ''Authentication failed''),
                                            (''message'', JStr ''Account deactivated'')] \<rparr>))"
  using assms
  by (auto simp: getUserFromToken_def select_minus_password_def auth_def extractToken_def
      gate_halt_def Error_new_def)

theorem getUserFromToken_resolution_witness:
  "verifyToken (table_jwt [(''good.jwt'', Inr alice_claims)]) test_env ''good.jwt'' = Inr alice_claims
   \<and> getUserFromToken (table_jwt [(''good.jwt'', Inr alice_claims)]) test_env [alice] ''good.jwt''
       = Inr (alice \<lparr> user_password := None \<rparr>)
   \<and> getUserFromToken (table_jwt [(''good.jwt'', Inr alice_claims)]) test_env [] ''good.jwt''
       = Inl (Error_new ''User not found'')
   \<and> getUserFromToken (table_jwt [(''good.jwt'', Inr alice_claims)]) test_env
         [alice \<lparr> user_isActive := False \<rparr>] ''good.jwt''
       = Inl (Error_new ''User account is deactivated'')"
proof -
  let ?jwt = "table_jwt [(''good.jwt'', Inr alice_claims)]"
  have v: "verifyToken ?jwt test_env ''good.jwt'' = Inr alice_claims"
    by (simp add: verifyToken_def table_jwt_def)
  have f1: "User_findById [alice] (claim_id alice_claims) = Some alice"
    and f2: "User_findById [] (claim_id alice_claims) = None"
    and f3: "User_findById [alice \<lparr> user_isActive := False \<rparr>] (claim_id alice_claims)
               = Some (alice \<lparr> user_isActive := False \<rparr>)"
    and act: "user_isActive alice"
    by (simp_all add: User_findById_def alice_claims_def alice_def)
  from v f1 f2 f3 act
    getUserFromToken_resolution[OF v, of "[alice]"]
    getUserFromToken_resolution[OF v, of "[]"]
    getUserFromToken_resolution[OF v, of "[alice \<lparr> user_isActive := False \<rparr>]"]
  show ?thesis by (simp add: alice_def)
qed

text \<open>
  Claim C5. For every identity record, a token that \<^verbatim>\<open>generateToken\<close> produces from it
  verifies before its expiry while the secret is unchanged, and the decoded claims
  are the fields it was built from: the id is the record's \<^verbatim>\<open>_id\<close> when that is
  present and not empty and the record's \<^verbatim>\<open>id\<close> otherwise, the username, email and
  role are the record's. The signing library is taken by its contract, with the
  signature symbolic (\<open>jsonwebtoken\<close>).
\<close>

theorem generateToken_verifyToken_round_trip:
  assumes "timespan (JWT_EXPIRE env) = Some span" and "now' < now + span"
    and "JWT_SECRET env' = JWT_SECRET env"
  shows "\<exists>token. generateToken (jsonwebtoken timespan now) env u = Inr token
           \<and> verifyToken (jsonwebtoken timespan' now') env' token =
               Inr \<lparr> claim_id = (case ident_doc_id u of
                                   None \<Rightarrow> ident_alias_id u
                                 | Some i \<Rightarrow> if i = [] then ident_alias_id u else Some i),
                     claim_username = Some (ident_username u),
                     claim_email = Some (ident_email u),
                     claim_role = Some (ident_role u),
                     claim_iss = Some ''mern-testing-app'',
                     claim_aud = Some ''mern-testing-users'',
                     claim_iat = Some now,
                     claim_exp = Some (now + span) \<rparr>"
  using assms by (simp add: generateToken_def verifyToken_def jsonwebtoken_def subject_id_def)

theorem generateToken_verifyToken_round_trip_witness:
  "seven_days (JWT_EXPIRE test_env) = Some 604800 \<and> (2000::int) < 1000 + 604800
   \<and> ident_doc_id alice_both_ids \<noteq> ident_alias_id alice_both_ids
   \<and> (\<exists>token. generateToken (jsonwebtoken seven_days 1000) test_env alice_both_ids = Inr token
         \<and> verifyToken (jsonwebtoken seven_days 2000) test_env token = Inr alice_claims)
   \<and> (\<exists>token. generateToken (jsonwebtoken seven_days 1000) test_env alice_alias_only = Inr token
         \<and> verifyToken (jsonwebtoken seven_days 2000) test_env token = Inr alice_claims)"
proof -
  have h: "seven_days (JWT_EXPIRE test_env) = Some 604800"
    by (simp add: seven_days_def JWT_EXPIRE_def test_env_def)
  have c1: "\<lparr> claim_id = (case ident_doc_id alice_both_ids of
                            None \<Rightarrow> ident_alias_id alice_both_ids
                          | Some i \<Rightarrow> if i = [] then ident_alias_id alice_both_ids else Some i),
             claim_username = Some (ident_username alice_both_ids),
             claim_email = Some (ident_email alice_both_ids),
             claim_role = Some (ident_role alice_both_ids),
             claim_iss = Some ''mern-testing-app'',
             claim_aud = Some ''mern-testing-users'',
             claim_iat = Some 1000,
             claim_exp = Some (1000 + 604800) \<rparr> = alice_claims"
    by (simp add: alice_claims_def alice_both_ids_def)
  have c2: "\<lparr> claim_id = (case ident_doc_id alice_alias_only of
                            None \<Rightarrow> ident_alias_id alice_alias_only
                          | Some i \<Rightarrow> if i = [] then ident_alias_id alice_alias_only else Some i),
             claim_username = Some (ident_username alice_alias_only),
             claim_email = Some (ident_email alice_alias_only),
             claim_role = Some (ident_role alice_alias_only),
             claim_iss = Some ''mern-testing-app'',
             claim_aud = Some ''mern-testing-users'',
             claim_iat = Some 1000,
             claim_exp = Some (1000 + 604800) \<rparr> = alice_claims"
    by (simp add: alice_claims_def alice_alias_only_def)
  have d: "ident_doc_id alice_both_ids \<noteq> ident_alias_id alice_both_ids"
    by (simp add: alice_both_ids_def)
  have r1: "\<exists>token. generateToken (jsonwebtoken seven_days 1000) test_env alice_both_ids = Inr token
         \<and> verifyToken (jsonwebtoken seven_days 2000) test_env token = Inr alice_claims"
    using generateToken_verifyToken_round_trip[where timespan = seven_days and env = test_env
         and span = 604800 and now' = 2000 and now = 1000 and env' = test_env
         and u = alice_both_ids and timespan' = seven_days] h
    unfolding c1 by simp
  have r2: "\<exists>token. generateToken (jsonwebtoken seven_days 1000) test_env alice_alias_only = Inr token
         \<and> verifyToken (jsonwebtoken seven_days 2000) test_env token = Inr alice_claims"
    using generateToken_verifyToken_round_trip[where timespan = seven_days and env = test_env
         and span = 604800 and now' = 2000 and now = 1000 and env' = test_env
         and u = alice_alias_only and timespan' = seven_days] h
    unfolding c2 by simp
  from h d r1 r2 show ?thesis by simp
qed

text \<open>
  Claim C6. For every request whose credential header is absent or does not start with
  \<^verbatim>\<open>Bearer \<close>, the \<^verbatim>\<open>auth\<close> gate responds 401 with error \<^verbatim>\<open>Access denied\<close> and message
  \<^verbatim>\<open>No token provided\<close> (it does not call \<^verbatim>\<open>next\<close>, so the handler does not run), and
  the \<^verbatim>\<open>optionalAuth\<close> gate calls \<^verbatim>\<open>next\<close> with the request context as it came: no
  identity is attached.
\<close>

theorem auth_without_bearer_credential:
  assumes "req_authorization req = None \<or>
           (\<exists>h. req_authorization req = Some h \<and> \<not> prefix ''Bearer '' h)"
  shows "auth jwt env users req =
           Responded \<lparr> res_status = 401,
                       res_body = [(''error'', JStr ''Access denied''),
                                   (''message'', JStr ''No token provided'')] \<rparr>
         \<and> optionalAuth jwt env users req = Next req"
  using assms by (auto simp: auth_def optionalAuth_def extractToken_def gate_halt_def)

theorem auth_without_bearer_credential_witness:
  "\<not> prefix ''Bearer '' ''Basic YWxpY2U6eA==''
   \<and> auth (table_jwt []) test_env [alice] (get_request ''/api/posts'' (Some ''Basic YWxpY2U6eA==''))
       = Responded \<lparr> res_status = 401,
                     res_body = [(''error'', JStr ''Access denied''),
                                 (''message'', JStr ''No token provided'')] \<rparr>
   \<and> optionalAuth (table_jwt []) test_env [alice]
         (get_request ''/api/posts'' (Some ''Basic YWxpY2U6eA==''))
       = Next (get_request ''/api/posts'' (Some ''Basic YWxpY2U6eA==''))
   \<and> req_user (get_request ''/api/posts'' (Some ''Basic YWxpY2U6eA=='')) = None"
  using auth_without_bearer_credential[of "get_request ''/api/posts'' (Some ''Basic YWxpY2U6eA=='')"
          "table_jwt []" test_env "[alice]"]
  by (simp add: get_request_def)

text \<open>
  Claim C7. \<^verbatim>\<open>requireOwnership\<close>: with no identity attached it responds 401 (error
  \<^verbatim>\<open>Access denied\<close>, message \<^verbatim>\<open>Authentication required\<close>) and does not call \<^verbatim>\<open>next\<close>; an
  identity whose role is \<^verbatim>\<open>admin\<close> passes in every mode; otherwise, in self mode
  (ownership field \<^verbatim>\<open>userId\<close> or \<^verbatim>\<open>_id\<close>) it passes exactly when the named route
  parameter equals the identity's own id and responds 403 (error \<^verbatim>\<open>Access denied\<close>,
  message \<^verbatim>\<open>You can only access your own resources\<close>) on a mismatch; in every other
  mode it passes every authenticated caller.
\<close>

theorem requireOwnership_cases:
  "(req_user req = None \<longrightarrow>
      requireOwnership p f req =
        Responded \<lparr> res_status = 401,
                    res_body = [(''error'', JStr ''Access denied''),
                                (''message'', JStr ''Authentication required'')] \<rparr>)
   \<and> (req_user req = Some u \<and> user_role u = ''admin'' \<longrightarrow> requireOwnership p f req = Next req)
   \<and> (req_user req = Some u \<and> user_role u \<noteq> ''admin'' \<and> (f = ''userId'' \<or> f = ''_id'') \<longrightarrow>
        requireOwnership p f req =
          (if map_of (req_params req) p = Some (user_id u) then Next req
           else Responded \<lparr> res_status = 403,
                            res_body = [(''error'', JStr ''Access denied''),
                                        (''message'',
                                         JStr ''You can only access your own resources'')] \<rparr>))
   \<and> (req_user req = Some u \<and> f \<noteq> ''userId'' \<and> f \<noteq> ''_id'' \<longrightarrow>
        requireOwnership p f req = Next req)"
  by (auto simp: requireOwnership_def gate_halt_def)

theorem requireOwnership_cases_witness:
  "requireOwnership ''id'' ''userId'' (get_request ''/api/users/7'' None)
     = Responded \<lparr> res_status = 401,
                   res_body = [(''error'', JStr ''Access denied''),
                               (''message'', JStr ''Authentication required'')] \<rparr>
   \<and> requireOwnership ''id'' ''userId''
       ((get_request ''/api/users/7'' None)
          \<lparr> req_params := [(''id'', ''7'')], req_user := Some (alice \<lparr> user_role := ''admin'' \<rparr>) \<rparr>)
     = Next ((get_request ''/api/users/7'' None)
          \<lparr> req_params := [(''id'', ''7'')], req_user := Some (alice \<lparr> user_role := ''admin'' \<rparr>) \<rparr>)
   \<and> requireOwnership ''id'' ''userId''
       ((get_request ''/api/users/me'' None)
          \<lparr> req_params := [(''id'', ''64b000000000000000000001'')], req_user := Some alice \<rparr>)
     = Next ((get_request ''/api/users/me'' None)
          \<lparr> req_params := [(''id'', ''64b000000000000000000001'')], req_user := Some alice \<rparr>)
   \<and> requireOwnership ''id'' ''_id''
       ((get_request ''/api/users/7'' None)
          \<lparr> req_params := [(''id'', ''7'')], req_user := Some alice \<rparr>)
     = Responded \<lparr> res_status = 403,
                   res_body = [(''error'', JStr ''Access denied''),
                               (''message'', JStr ''You can only access your own resources'')] \<rparr>
   \<and> requireOwnership ''id'' ''author''
       ((get_request ''/api/posts/7'' None)
          \<lparr> req_params := [(''id'', ''7'')], req_user := Some alice \<rparr>)
     = Next ((get_request ''/api/posts/7'' None)
          \<lparr> req_params := [(''id'', ''7'')], req_user := Some alice \<rparr>)"
  using
    requireOwnership_cases[of "get_request ''/api/users/7'' None" "''id''" "''userId''" alice]
    requireOwnership_cases[of "(get_request ''/api/users/7'' None)
          \<lparr> req_params := [(''id'', ''7'')], req_user := Some (alice \<lparr> user_role := ''admin'' \<rparr>) \<rparr>"
          "''id''" "''userId''" "alice \<lparr> user_role := ''admin'' \<rparr>"]
    requireOwnership_cases[of "(get_request ''/api/users/me'' None)
          \<lparr> req_params := [(''id'', ''64b000000000000000000001'')], req_user := Some alice \<rparr>"
          "''id''" "''userId''" alice]
    requireOwnership_cases[of "(get_request ''/api/users/7'' None)
          \<lparr> req_params := [(''id'', ''7'')], req_user := Some alice \<rparr>" "''id''" "''_id''" alice]
    requireOwnership_cases[of "(get_request ''/api/posts/7'' None)
          \<lparr> req_params := [(''id'', ''7'')], req_user := Some alice \<rparr>" "''id''" "''author''" alice]
  by (simp add: get_request_def alice_def)

text \<open>
  Claim C8. Two failing logins, one for a name that matches no account and one for an
  account with a wrong password, get the same response. The code gives both the
  status 401 and the message \<^verbatim>\<open>Invalid credentials\<close>, but the envelope's \<open>details\<close>
  says \<^verbatim>\<open>User not found\<close> in the first case and \<^verbatim>\<open>Incorrect password\<close> in the second:
  the same login request is answered differently by a collection without the account
  and by one with it. (The forgot-password half of the claim holds:
  \<open>forgot_password_independent\<close>.)
\<close>

theorem login_failures_differ_in_details:
  "translated test_env ''2025-01-01T00:00:00.000Z'' (post_request ''/api/auth/login'')
     (fst (login (table_jwt []) test_env plain_model ''2025-01-01T00:00:00.000Z'' []
             \<lparr> body_login = ''alice'', body_password = ''Wrong9'' \<rparr> []))
   = Inr \<lparr> res_status = 401,
           res_body = [(''error'', JStr ''Invalid credentials''), (''status'', JNum 401),
                       (''timestamp'', JStr ''2025-01-01T00:00:00.000Z''),
                       (''path'', JStr ''/api/auth/login''), (''method'', JStr ''POST''),
                       (''details'', JStr ''User not found'')] \<rparr>
   \<and> translated test_env ''2025-01-01T00:00:00.000Z'' (post_request ''/api/auth/login'')
     (fst (login (table_jwt []) test_env plain_model ''2025-01-01T00:00:00.000Z'' []
             \<lparr> body_login = ''alice'', body_password = ''Wrong9'' \<rparr> [alice]))
   = Inr \<lparr> res_status = 401,
           res_body = [(''error'', JStr ''Invalid credentials''), (''status'', JNum 401),
                       (''timestamp'', JStr ''2025-01-01T00:00:00.000Z''),
                       (''path'', JStr ''/api/auth/login''), (''method'', JStr ''POST''),
                       (''details'', JStr ''Incorrect password'')] \<rparr>"
  by (simp add: translated_def login_def User_findOne_email_or_username_def toLowerCase_def
      alice_def plain_model_def errorHandler_def send_json_def classify_AppError on_ok_simps
      test_env_def
      post_request_def)

text \<open>
  Claim C9. As stated (the registration that loses a race on one email gets 400 with
  the message \<^verbatim>\<open>User already exists\<close> whichever way the collision is found) the claim
  fails on the code. What holds, for two valid registrations with the same email and
  different usernames (ASCII, none of them registered before, signing a token
  succeeding), under every interleaving of their storage calls: the request whose
  insertion comes first responds 201 with its token and the public profile of its new
  record; the other one fails, with \<^verbatim>\<open>AppError('User already exists', 400, 'A user with
  this email already exists')\<close> when its existence check comes after that insertion, and
  with the storage layer's uniqueness violation on the email when its check came
  before it. \<^verbatim>\<open>errorHandler\<close> translates the first failure to a 400 envelope with
  error \<^verbatim>\<open>User already exists\<close> and those details, the second to a 400 envelope with
  error \<^verbatim>\<open>Duplicate field value\<close> and details \<^verbatim>\<open>email '<the email>' already exists\<close>.
\<close>

theorem concurrent_registration_one_wins:
  assumes same_email: "toLowerCase (reg_email bodyA) = toLowerCase (reg_email bodyB)"
    and names: "toLowerCase (reg_username bodyA) \<noteq> toLowerCase (reg_username bodyB)"
    and asc: "ascii (reg_email bodyA)" "ascii (reg_email bodyB)"
             "ascii (reg_username bodyA)" "ascii (reg_username bodyB)"
    and pwA: "validatePassword_isValid (reg_password bodyA)"
    and pwB: "validatePassword_isValid (reg_password bodyB)"
    and fresh: "list_all (\<lambda>u. user_email u \<noteq> toLowerCase (reg_email bodyA)
                            \<and> user_username u \<noteq> toLowerCase (reg_username bodyA)
                            \<and> user_username u \<noteq> toLowerCase (reg_username bodyB)
                            \<and> user_id u \<noteq> idA \<and> user_id u \<noteq> idB) users"
    and tokA: "generateToken jwt env (identity_of (new_user um idA (userData_of bodyA))) = Inr tokA"
    and tokB: "generateToken jwt env (identity_of (new_user um idB (userData_of bodyB))) = Inr tokB"
    and sched: "s \<in> set schedules"
  shows "race (register_step jwt env um now idA [] bodyA)
              (register_step jwt env um now idB [] bodyB) s (Reg_start, Reg_start, users) =
           (if create_at True s < create_at False s
            then (Reg_done (Inr \<lparr> res_status = 201,
                     res_body = [(''message'', JStr ''User registered successfully''),
                                 (''token'', JStr tokA),
                                 (''user'', um_toPublicJSON um
                                    ((new_user um idA (userData_of bodyA))
                                       \<lparr> user_lastLogin := Some now \<rparr>))] \<rparr>),
                  Reg_done (Inl (if create_at True s < findOne_at False s
                                 then AppError ''User already exists'' (Some 400)
                                        (JStr ''A user with this email already exists'')
                                 else duplicate_key_error ''email''
                                        (toLowerCase (reg_email bodyB)))),
                  users @ [(new_user um idA (userData_of bodyA)) \<lparr> user_lastLogin := Some now \<rparr>])
            else (Reg_done (Inl (if create_at False s < findOne_at True s
                                 then AppError ''User already exists'' (Some 400)
                                        (JStr ''A user with this email already exists'')
                                 else duplicate_key_error ''email''
                                        (toLowerCase (reg_email bodyA)))),
                  Reg_done (Inr \<lparr> res_status = 201,
                     res_body = [(''message'', JStr ''User registered successfully''),
                                 (''token'', JStr tokB),
                                 (''user'', um_toPublicJSON um
                                    ((new_user um idB (userData_of bodyB))
                                       \<lparr> user_lastLogin := Some now \<rparr>))] \<rparr>),
                  users @ [(new_user um idB (userData_of bodyB)) \<lparr> user_lastLogin := Some now \<rparr>]))
       \<and> (\<exists>res. errorHandler env now
                   (AppError ''User already exists'' (Some 400)
                      (JStr ''A user with this email already exists'')) req = Inr res
               \<and> res_status res = 400
               \<and> map_of (res_body res) ''error'' = Some (JStr ''User already exists'')
               \<and> map_of (res_body res) ''status'' = Some (JNum 400)
               \<and> map_of (res_body res) ''details'' =
                   Some (JStr ''A user with this email already exists''))
       \<and> (\<exists>res. errorHandler env now
                   (duplicate_key_error ''email'' (toLowerCase (reg_email bodyA))) req = Inr res
               \<and> res_status res = 400
               \<and> map_of (res_body res) ''error'' = Some (JStr ''Duplicate field value'')
               \<and> map_of (res_body res) ''status'' = Some (JNum 400)
               \<and> map_of (res_body res) ''details'' =
                   Some (JStr (''email '' @ [CHR 0x27] @ toLowerCase (reg_email bodyA)
                                 @ [CHR 0x27] @ '' already exists'')))"
proof -
  define dA where "dA = new_user um idA (userData_of bodyA)"
  define dB where "dB = new_user um idB (userData_of bodyB)"
  define dA' where "dA' = dA \<lparr> user_lastLogin := Some now \<rparr>"
  define dB' where "dB' = dB \<lparr> user_lastLogin := Some now \<rparr>"
  define stepA where "stepA = register_step jwt env um now idA [] bodyA"
  define stepB where "stepB = register_step jwt env um now idB [] bodyB"
  define E where "E = toLowerCase (reg_email bodyA)"
  have EB: "toLowerCase (reg_email bodyB) = E" using same_email by (simp add: E_def)
  have mail: "user_email dA = E" "user_email dB = E" "user_email dA' = E" "user_email dB' = E"
    by (simp_all add: dA_def dB_def dA'_def dB'_def new_user_def userData_of_def E_def same_email)
  have uname: "user_username dA \<noteq> toLowerCase (reg_username bodyB)"
      "user_username dA' \<noteq> toLowerCase (reg_username bodyB)"
      "user_username dB \<noteq> toLowerCase (reg_username bodyA)"
      "user_username dB' \<noteq> toLowerCase (reg_username bodyA)"
    using names by (simp_all add: dA_def dB_def dA'_def dB'_def new_user_def userData_of_def)
  have ids: "user_id dA' = user_id dA" "user_id dB' = user_id dB" "user_id dA = idA" "user_id dB = idB"
    by (simp_all add: dA_def dB_def dA'_def dB'_def new_user_def)
  have frA: "list_all (\<lambda>u. \<not> (user_email u = toLowerCase (reg_email bodyA)
                          \<or> user_username u = toLowerCase (reg_username bodyA))) users"
    using fresh by (simp add: list_all_iff)
  have frB: "list_all (\<lambda>u. \<not> (user_email u = toLowerCase (reg_email bodyB)
                          \<or> user_username u = toLowerCase (reg_username bodyB))) users"
    using fresh same_email by (simp add: list_all_iff)
  have frE: "list_all (\<lambda>u. \<not> user_email u = toLowerCase (reg_email bodyA)) users"
       "list_all (\<lambda>u. \<not> user_email u = toLowerCase (reg_email bodyB)) users"
       "list_all (\<lambda>u. \<not> user_username u = toLowerCase (reg_username bodyA)) users"
       "list_all (\<lambda>u. \<not> user_username u = toLowerCase (reg_username bodyB)) users"
       "list_all (\<lambda>u. user_id u \<noteq> user_id dA) users"
       "list_all (\<lambda>u. user_id u \<noteq> user_id dB) users"
    using fresh same_email by (simp_all add: list_all_iff ids)
  let ?pre = "Reg_done (Inl (AppError ''User already exists'' (Some 400)
                             (JStr ''A user with this email already exists'')))"
  let ?dup = "Reg_done (Inl (duplicate_key_error ''email'' E))"
  let ?okA = "Reg_done (Inr \<lparr> res_status = 201,
                      res_body = [(''message'', JStr ''User registered successfully''),
                                  (''token'', JStr tokA),
                                  (''user'', um_toPublicJSON um dA')] \<rparr>)"
  let ?okB = "Reg_done (Inr \<lparr> res_status = 201,
                      res_body = [(''message'', JStr ''User registered successfully''),
                                  (''token'', JStr tokB),
                                  (''user'', um_toPublicJSON um dB')] \<rparr>)"
  have a1: "stepA (Reg_start, users) = (Reg_checked, users)"
    unfolding stepA_def by (rule step_check_passes[OF pwA frA])
  have b1: "stepB (Reg_start, users) = (Reg_checked, users)"
    unfolding stepB_def by (rule step_check_passes[OF pwB frB])
  have a2: "stepA (Reg_start, users @ [dB]) = (?pre, users @ [dB])"
           "stepA (Reg_start, users @ [dB']) = (?pre, users @ [dB'])"
    unfolding stepA_def using mail by (simp_all add: step_check_collides[OF pwA frA] E_def)
  have b2: "stepB (Reg_start, users @ [dA]) = (?pre, users @ [dA])"
           "stepB (Reg_start, users @ [dA']) = (?pre, users @ [dA'])"
    unfolding stepB_def using mail by (simp_all add: step_check_collides[OF pwB frB] EB)
  have a3: "stepA (Reg_checked, users) = (Reg_created dA' tokA, users @ [dA])"
    unfolding stepA_def dA'_def dA_def by (rule step_create_ok[OF frE(1) frE(3) tokA])
  have b3: "stepB (Reg_checked, users) = (Reg_created dB' tokB, users @ [dB])"
    unfolding stepB_def dB'_def dB_def by (rule step_create_ok[OF frE(2) frE(4) tokB])
  have a4: "stepA (Reg_checked, users @ [dB]) = (?dup, users @ [dB])"
           "stepA (Reg_checked, users @ [dB']) = (?dup, users @ [dB'])"
    unfolding stepA_def E_def
    using step_create_duplicate[OF frE(3) uname(3), of jwt env um now idA]
      step_create_duplicate[OF frE(3) uname(4), of jwt env um now idA] mail
    by (simp_all add: E_def)
  have b4: "stepB (Reg_checked, users @ [dA]) = (?dup, users @ [dA])"
           "stepB (Reg_checked, users @ [dA']) = (?dup, users @ [dA'])"
    unfolding stepB_def
    using step_create_duplicate[OF frE(4) uname(1), of jwt env um now idB]
      step_create_duplicate[OF frE(4) uname(2), of jwt env um now idB] mail
    by (simp_all add: EB)
  have a5: "stepA (Reg_created dA' tokA, users @ [dA]) = (?okA, users @ [dA'])"
    unfolding stepA_def by (simp add: step_save User_save_last[OF frE(5) ids(1)])
  have b5: "stepB (Reg_created dB' tokB, users @ [dB]) = (?okB, users @ [dB'])"
    unfolding stepB_def by (simp add: step_save User_save_last[OF frE(6) ids(2)])
  have a6: "\<And>r S. stepA (Reg_done r, S) = (Reg_done r, S)"
    unfolding stepA_def by (rule step_done)
  have b6: "\<And>r S. stepB (Reg_done r, S) = (Reg_done r, S)"
    unfolding stepB_def by (rule step_done)
  note steps = a1 b1 a2 b2 a3 b3 a4 b4 a5 b5 a6 b6
  from sched have "list_ex (\<lambda>l. s = l) schedules" by (simp add: list_ex_iff)
  then have main: "race stepA stepB s (Reg_start, Reg_start, users) =
           (if create_at True s < create_at False s
            then (?okA,
                  (if create_at True s < findOne_at False s then ?pre else ?dup),
                  users @ [dA'])
            else ((if create_at False s < findOne_at True s then ?pre else ?dup),
                  ?okB, users @ [dB']))"
    unfolding schedules_eq list_ex_Cons_iff list_ex_Nil_iff
    by (elim disjE FalseE; simp add: steps create_at_def findOne_at_def)
  have "race (register_step jwt env um now idA [] bodyA)
              (register_step jwt env um now idB [] bodyB) s (Reg_start, Reg_start, users) =
           (if create_at True s < create_at False s
            then (?okA,
                  Reg_done (Inl (if create_at True s < findOne_at False s
                                 then AppError ''User already exists'' (Some 400)
                                        (JStr ''A user with this email already exists'')
                                 else duplicate_key_error ''email'' E)),
                  users @ [dA'])
            else (Reg_done (Inl (if create_at False s < findOne_at True s
                                 then AppError ''User already exists'' (Some 400)
                                        (JStr ''A user with this email already exists'')
                                 else duplicate_key_error ''email'' E)),
                  ?okB, users @ [dB']))"
    using main unfolding stepA_def stepB_def by (simp split: if_splits)
  then show ?thesis
    using errorHandler_user_exists[of env now req] errorHandler_duplicate_email[of env now E req]
    unfolding dA'_def dB'_def dA_def dB_def EB
    by (simp add: E_def)
qed

theorem concurrent_registration_one_wins_witness:
  "[True, True, True, False, False, False] \<in> set schedules
   \<and> [True, False, True, False, True, False] \<in> set schedules
   \<and> fst (snd (race (register_step (table_jwt []) test_env plain_model ''2025-01-01T00:00:00.000Z''
                       ''64b00000000000000000000a'' [] bob_body)
                    (register_step (table_jwt []) test_env plain_model ''2025-01-01T00:00:00.000Z''
                       ''64b00000000000000000000b'' [] robert_body)
                    [True, True, True, False, False, False] (Reg_start, Reg_start, [alice])))
     = Reg_done (Inl (AppError ''User already exists'' (Some 400)
                        (JStr ''A user with this email already exists'')))
   \<and> fst (snd (race (register_step (table_jwt []) test_env plain_model ''2025-01-01T00:00:00.000Z''
                       ''64b00000000000000000000a'' [] bob_body)
                    (register_step (table_jwt []) test_env plain_model ''2025-01-01T00:00:00.000Z''
                       ''64b00000000000000000000b'' [] robert_body)
                    [True, False, True, False, True, False] (Reg_start, Reg_start, [alice])))
     = Reg_done (Inl (duplicate_key_error ''email'' ''bob@example.com''))
   \<and> fst (race (register_step (table_jwt []) test_env plain_model ''2025-01-01T00:00:00.000Z''
                  ''64b00000000000000000000a'' [] bob_body)
               (register_step (table_jwt []) test_env plain_model ''2025-01-01T00:00:00.000Z''
                  ''64b00000000000000000000b'' [] robert_body)
               [True, False, True, False, True, False] (Reg_start, Reg_start, [alice]))
     = Reg_done (Inr \<lparr> res_status = 201,
                       res_body = [(''message'', JStr ''User registered successfully''),
                                   (''token'', JStr ''token-of-64b00000000000000000000a''),
                                   (''user'', um_toPublicJSON plain_model
                                      ((new_user plain_model ''64b00000000000000000000a''
                                          (userData_of bob_body))
                                         \<lparr> user_lastLogin := Some ''2025-01-01T00:00:00.000Z'' \<rparr>))] \<rparr>)"
proof -
  let ?now = "''2025-01-01T00:00:00.000Z''"
  let ?idA = "''64b00000000000000000000a''"
  let ?idB = "''64b00000000000000000000b''"
  let ?req = "post_request ''/api/auth/register''"
  let ?s1 = "[True, True, True, False, False, False]"
  let ?s2 = "[True, False, True, False, True, False]"
  have lower: "toLowerCase (reg_email bob_body) = ''bob@example.com''"
    "toLowerCase (reg_email robert_body) = ''bob@example.com''"
    "toLowerCase (reg_username bob_body) = ''bob''"
    "toLowerCase (reg_username robert_body) = ''robert''"
    by (simp_all add: toLowerCase_def bob_body_def robert_body_def)
  have h1: "toLowerCase (reg_email bob_body) = toLowerCase (reg_email robert_body)"
    by (simp add: lower)
  have h2: "toLowerCase (reg_username bob_body) \<noteq> toLowerCase (reg_username robert_body)"
    by (simp add: lower)
  have asc: "ascii (reg_email bob_body)" "ascii (reg_email robert_body)"
    "ascii (reg_username bob_body)" "ascii (reg_username robert_body)"
    by (simp_all add: ascii_def bob_body_def robert_body_def)
  have h3: "validatePassword_isValid (reg_password bob_body)"
    by (simp add: validatePassword_isValid_def validatePassword_errors_def char_in_def bob_body_def)
  have h4: "validatePassword_isValid (reg_password robert_body)"
    by (simp add: validatePassword_isValid_def validatePassword_errors_def char_in_def
        robert_body_def)
  have h5: "list_all (\<lambda>u. user_email u \<noteq> toLowerCase (reg_email bob_body)
                            \<and> user_username u \<noteq> toLowerCase (reg_username bob_body)
                            \<and> user_username u \<noteq> toLowerCase (reg_username robert_body)
                            \<and> user_id u \<noteq> ?idA \<and> user_id u \<noteq> ?idB) [alice]"
    by (simp add: lower alice_def)
  have h6: "generateToken (table_jwt []) test_env
              (identity_of (new_user plain_model ?idA (userData_of bob_body)))
            = Inr ''token-of-64b00000000000000000000a''"
    by (simp add: table_jwt_generateToken new_user_def)
  have h7: "generateToken (table_jwt []) test_env
              (identity_of (new_user plain_model ?idB (userData_of robert_body)))
            = Inr ''token-of-64b00000000000000000000b''"
    by (simp add: table_jwt_generateToken new_user_def)
  have s1: "?s1 \<in> set schedules" and s2: "?s2 \<in> set schedules"
    by (simp_all add: schedules_eq)
  have p1: "create_at True ?s1 < create_at False ?s1" "create_at True ?s1 < findOne_at False ?s1"
    and p2: "create_at True ?s2 < create_at False ?s2" "\<not> create_at True ?s2 < findOne_at False ?s2"
    by (simp_all add: create_at_def findOne_at_def)
  from concurrent_registration_one_wins[OF h1 h2 asc h3 h4 h5 h6 h7 s1, of ?now ?req]
       concurrent_registration_one_wins[OF h1 h2 asc h3 h4 h5 h6 h7 s2, of ?now ?req]
  show ?thesis using s1 s2 p1 p2 by (simp add: lower)
qed

theorem concurrent_registration_duplicate_field_message:
  "fst (snd (race (register_step (table_jwt []) test_env plain_model ''2025-01-01T00:00:00.000Z''
                     ''64b00000000000000000000a'' [] bob_body)
                  (register_step (table_jwt []) test_env plain_model ''2025-01-01T00:00:00.000Z''
                     ''64b00000000000000000000b'' [] robert_body)
                  [True, False, True, False, True, False] (Reg_start, Reg_start, [])))
     = Reg_done (Inl (duplicate_key_error ''email'' ''bob@example.com''))
   \<and> translated test_env ''2025-01-01T00:00:00.000Z'' (post_request ''/api/auth/register'')
       (Inl (duplicate_key_error ''email'' ''bob@example.com''))
     = Inr \<lparr> res_status = 400,
             res_body = [(''error'', JStr ''Duplicate field value''), (''status'', JNum 400),
                         (''timestamp'', JStr ''2025-01-01T00:00:00.000Z''),
                         (''path'', JStr ''/api/auth/register''), (''method'', JStr ''POST''),
                         (''details'', JStr (''email '' @ [CHR 0x27] @ ''bob@example.com''
                                               @ [CHR 0x27] @ '' already exists''))] \<rparr>
   \<and> \<not> reg_rejected test_env ''2025-01-01T00:00:00.000Z'' (post_request ''/api/auth/register'')
         ''User already exists'' ''A user with this email already exists''
         (Reg_done (Inl (duplicate_key_error ''email'' ''bob@example.com'')))"
proof -
  have lower: "toLowerCase ''bob@example.com'' = ''bob@example.com''"
    "toLowerCase ''bob'' = ''bob''" "toLowerCase ''robert'' = ''robert''"
    by (simp_all add: toLowerCase_def)
  have v: "validatePassword_isValid ''Secret1''" "validatePassword_isValid ''Secret2''"
    by (simp_all add: validatePassword_isValid_def validatePassword_errors_def char_in_def)
  show ?thesis
    using v
    by (simp add: register_step_def User_findOne_email_or_username_def lower bob_body_def
        robert_body_def User_create_def userData_of_def new_user_def Let_def
        table_jwt_generateToken
        reg_rejected_def translated_def errorHandler_def send_json_def
        classify_duplicate_key_error on_ok_simps post_request_def test_env_def)
qed

text \<open>
  Claim C10. Whenever the library's verification fails, whatever error it throws,
  \<^verbatim>\<open>verifyToken\<close> throws a plain \<^verbatim>\<open>Error\<close> with message \<^verbatim>\<open>Invalid token\<close>, whose name is
  neither \<^verbatim>\<open>TokenExpiredError\<close> nor \<^verbatim>\<open>JsonWebTokenError\<close>; the \<^verbatim>\<open>auth\<close> gate never
  passes an error on to \<^verbatim>\<open>next\<close>, so no error of a token that goes through it reaches
  the translator's two token rules; and the gate answers such a token itself with 401,
  error \<^verbatim>\<open>Authentication failed\<close> and message \<^verbatim>\<open>Invalid token\<close>.
\<close>

theorem verification_failure_is_plain_invalid_token:
  assumes "jwt_verify jwt token (JWT_SECRET env)
             \<lparr> verify_issuer = ''mern-testing-app'', verify_audience = ''mern-testing-users'' \<rparr>
           = Inl e"
  shows "verifyToken jwt env token = Inl (Error_new ''Invalid token'')
       \<and> err_name (Error_new ''Invalid token'') = ''Error''
       \<and> err_name (Error_new ''Invalid token'') \<noteq> ''TokenExpiredError''
       \<and> err_name (Error_new ''Invalid token'') \<noteq> ''JsonWebTokenError''
       \<and> auth jwt env users req \<noteq> NextError e'
       \<and> (token \<noteq> [] \<and> req_authorization req = Some (''Bearer '' @ token) \<longrightarrow>
            auth jwt env users req =
              Responded \<lparr> res_status = 401,
                          res_body = [(''error'', JStr ''Authentication failed''),
                                      (''message'', JStr ''Invalid token'')] \<rparr>)"
proof -
  from assms have v: "verifyToken jwt env token = Inl (Error_new ''Invalid token'')"
    by (simp add: verifyToken_def)
  then have g: "getUserFromToken jwt env users token = Inl (Error_new ''Invalid token'')"
    by (simp add: getUserFromToken_def)
  have "token \<noteq> [] \<and> req_authorization req = Some (''Bearer '' @ token) \<longrightarrow>
            auth jwt env users req =
              Responded \<lparr> res_status = 401,
                          res_body = [(''error'', JStr ''Authentication failed''),
                                      (''message'', JStr ''Invalid token'')] \<rparr>"
    using g by (simp add: auth_def extractToken_def gate_halt_def Error_new_def)
  with v auth_never_forwards[of jwt env users req e'] show ?thesis
    by (simp add: Error_new_def)
qed

theorem verification_failure_is_plain_invalid_token_witness:
  "jwt_verify (table_jwt [(''expired.jwt'', Inl (TokenExpiredError ''jwt expired''))]) ''expired.jwt''
       (JWT_SECRET test_env)
       \<lparr> verify_issuer = ''mern-testing-app'', verify_audience = ''mern-testing-users'' \<rparr>
     = Inl (TokenExpiredError ''jwt expired'')
   \<and> verifyToken (table_jwt [(''expired.jwt'', Inl (TokenExpiredError ''jwt expired''))]) test_env
       ''expired.jwt''
     = Inl (Error_new ''Invalid token'')
   \<and> auth (table_jwt [(''expired.jwt'', Inl (TokenExpiredError ''jwt expired''))]) test_env [alice]
       (get_request ''/api/posts'' (Some ''Bearer expired.jwt''))
     = Responded \<lparr> res_status = 401,
                   res_body = [(''error'', JStr ''Authentication failed''),
                               (''message'', JStr ''Invalid token'')] \<rparr>"
proof -
  let ?jwt = "table_jwt [(''expired.jwt'', Inl (TokenExpiredError ''jwt expired''))]"
  have h: "jwt_verify ?jwt ''expired.jwt'' (JWT_SECRET test_env)
             \<lparr> verify_issuer = ''mern-testing-app'', verify_audience = ''mern-testing-users'' \<rparr>
           = Inl (TokenExpiredError ''jwt expired'')"
    by (simp add: table_jwt_def)
  from verification_failure_is_plain_invalid_token[OF h,
         of "[alice]" "get_request ''/api/posts'' (Some ''Bearer expired.jwt'')"]
  show ?thesis using h by (simp add: get_request_def)
qed

end
